theory Spec2Isabelle
  imports Complex_Main
begin

section \<open>Python values and exceptions\<close>

text \<open>
  The program is the module \<^verbatim>\<open>homework.py\<close>: a dataclass \<^verbatim>\<open>InfoMessage\<close>, the class
  \<^verbatim>\<open>Training\<close> with its subclasses \<^verbatim>\<open>Running\<close>, \<^verbatim>\<open>SportsWalking\<close> and \<^verbatim>\<open>Swimming\<close>, and the
  functions \<^verbatim>\<open>read_package\<close> and \<^verbatim>\<open>main\<close>.

  An exception is a value. \<open>Raised\<close> is an exception a \<^verbatim>\<open>raise\<close> statement of the module
  creates, with its message; \<open>Runtime\<close> is one the interpreter raises while it evaluates
  an expression (a division by zero, an integer too large for a float, a format code that
  does not fit the value, a call with the wrong number of arguments), whose message is
  not modelled.
\<close>

datatype exc_class = TypeError | KeyError | ValueError | ZeroDivisionError | OverflowError

datatype py_error = Raised exc_class string | Runtime exc_class

type_synonym 'a result = "py_error + 'a"

section \<open>Floats\<close>

text \<open>
  A Python \<^verbatim>\<open>float\<close> is an IEEE 754 binary64 number. \<open>Finite s m\<close> is the number with the
  sign bit \<open>s\<close> and the magnitude \<open>m\<close>, a non-negative real that binary64 represents
  (\<open>Finite True 0\<close> is the negative zero); \<open>Infinity s\<close> is an infinity and \<open>NaN\<close> a
  not-a-number.
\<close>

datatype pyfloat = Finite bool real | Infinity bool | NaN

subsection \<open>Rounding to binary64\<close>

text \<open>The power of two with an integer exponent.\<close>

definition pow2 :: "int \<Rightarrow> real" where
  "pow2 k = (if 0 \<le> k then 2 ^ nat k else 1 / 2 ^ nat (- k))"

text \<open>
  \<open>binade m\<close> is the exponent \<open>e\<close> with \<open>2^e \<le> m < 2^(e+1)\<close>, found by bisection
  between \<open>-1075\<close> and \<open>3020\<close>: below the range it is \<open>-1075\<close>, above it \<open>3020\<close>.
\<close>

fun exp_search :: "int list \<Rightarrow> int \<Rightarrow> real \<Rightarrow> int" where
  "exp_search [] lo m = lo"
| "exp_search (d # ds) lo m =
     (if pow2 (lo + d) \<le> m then exp_search ds (lo + d) m else exp_search ds lo m)"

definition binade :: "real \<Rightarrow> int" where
  "binade m = exp_search [2048, 1024, 512, 256, 128, 64, 32, 16, 8, 4, 2, 1] (- 1075) m"

text \<open>The nearest integer, a tie going to the even one.\<close>

definition round_half_even :: "real \<Rightarrow> int" where
  "round_half_even x =
     (let f = \<lfloor>x\<rfloor>; d = x - of_int f
      in if d < 1 / 2 then f else if 1 / 2 < d then f + 1 else if even f then f else f + 1)"

text \<open>
  The spacing of the binary64 numbers around a magnitude \<open>m\<close>: \<open>2^(e-52)\<close> in the binade
  \<open>e\<close>, and \<open>2^(-1074)\<close> for the subnormal numbers and the first normal binade. Rounding
  a magnitude to nearest, ties to even, is rounding its quotient by the spacing. A
  rounded magnitude that reaches \<open>2^1024\<close> is beyond the largest float.
\<close>

definition ulp :: "real \<Rightarrow> real" where
  "ulp m = pow2 (max (binade m) (- 1022) - 52)"

definition round_mag :: "real \<Rightarrow> real" where
  "round_mag m = of_int (round_half_even (m / ulp m)) * ulp m"

definition overflows :: "real \<Rightarrow> bool" where
  "overflows m = (pow2 1024 \<le> m)"

text \<open>The float of a sign and an exact magnitude, as an arithmetic operation delivers it.\<close>

definition rounded :: "bool \<Rightarrow> real \<Rightarrow> pyfloat" where
  "rounded s m = (let r = round_mag m in if overflows r then Infinity s else Finite s r)"

text \<open>A float literal of the source, such as \<^verbatim>\<open>0.65\<close>: the float nearest to the decimal.\<close>

definition float_lit :: "real \<Rightarrow> pyfloat" where
  "float_lit r = rounded False r"

subsection \<open>The operations of the interpreter\<close>

text \<open>
  The conversion of an \<^verbatim>\<open>int\<close> operand to a float, which every mixed operation performs:
  correctly rounded, and \<^verbatim>\<open>OverflowError\<close> when the integer is too large.
\<close>

definition int_to_float :: "int \<Rightarrow> pyfloat result" where
  "int_to_float n =
     (let r = round_mag \<bar>of_int n\<bar>
      in if overflows r then Inl (Runtime OverflowError) else Inr (Finite (n < 0) r))"

text \<open>
  \<^verbatim>\<open>x * y\<close>, \<^verbatim>\<open>x + y\<close>, \<^verbatim>\<open>x / y\<close> and \<^verbatim>\<open>x ** 2\<close> on floats. The product, the sum and the
  quotient overflow to an infinity without an exception; the quotient raises
  \<^verbatim>\<open>ZeroDivisionError\<close> for a zero divisor, whatever the dividend; the power raises
  \<^verbatim>\<open>OverflowError\<close> when the square of a finite float overflows. The power is computed
  by the C library; it is taken to deliver the correctly rounded square.
\<close>

fun fmul :: "pyfloat \<Rightarrow> pyfloat \<Rightarrow> pyfloat" where
  "fmul NaN y = NaN"
| "fmul x NaN = NaN"
| "fmul (Infinity s) (Infinity t) = Infinity (s \<noteq> t)"
| "fmul (Infinity s) (Finite t n) = (if n = 0 then NaN else Infinity (s \<noteq> t))"
| "fmul (Finite s m) (Infinity t) = (if m = 0 then NaN else Infinity (s \<noteq> t))"
| "fmul (Finite s m) (Finite t n) = rounded (s \<noteq> t) (m * n)"

fun fadd :: "pyfloat \<Rightarrow> pyfloat \<Rightarrow> pyfloat" where
  "fadd NaN y = NaN"
| "fadd x NaN = NaN"
| "fadd (Infinity s) (Infinity t) = (if s = t then Infinity s else NaN)"
| "fadd (Infinity s) (Finite t n) = Infinity s"
| "fadd (Finite s m) (Infinity t) = Infinity t"
| "fadd (Finite s m) (Finite t n) =
     (let y = (if s then - m else m) + (if t then - n else n)
      in if y = 0 then Finite (s \<and> t) 0 else rounded (y < 0) \<bar>y\<bar>)"

fun fdiv :: "pyfloat \<Rightarrow> pyfloat \<Rightarrow> pyfloat result" where
  "fdiv (Finite s m) (Finite t n) =
     (if n = 0 then Inl (Runtime ZeroDivisionError) else Inr (rounded (s \<noteq> t) (m / n)))"
| "fdiv (Infinity s) (Finite t n) =
     (if n = 0 then Inl (Runtime ZeroDivisionError) else Inr (Infinity (s \<noteq> t)))"
| "fdiv NaN (Finite t n) = (if n = 0 then Inl (Runtime ZeroDivisionError) else Inr NaN)"
| "fdiv (Finite s m) (Infinity t) = Inr (Finite (s \<noteq> t) 0)"
| "fdiv (Infinity s) (Infinity t) = Inr NaN"
| "fdiv NaN (Infinity t) = Inr NaN"
| "fdiv x NaN = Inr NaN"

fun fpow2 :: "pyfloat \<Rightarrow> pyfloat result" where
  "fpow2 NaN = Inr NaN"
| "fpow2 (Infinity s) = Inr (Infinity False)"
| "fpow2 (Finite s m) =
     (let r = round_mag (m * m)
      in if overflows r then Inl (Runtime OverflowError) else Inr (Finite False r))"

text \<open>
  The operators on operands that are themselves evaluated: the left operand first, then
  the right one, then the operation, so the first exception in this order is the one
  raised. An \<^verbatim>\<open>int\<close> operand is converted where it stands; in every expression of the
  module an \<^verbatim>\<open>int\<close> operand is an attribute or a constant next to an operand that cannot
  raise, so its conversion is the first thing in the operation that can fail.
\<close>

definition py_mul :: "pyfloat result \<Rightarrow> pyfloat result \<Rightarrow> pyfloat result" where
  "py_mul a b =
     (case a of Inl e \<Rightarrow> Inl e | Inr x \<Rightarrow> (case b of Inl e \<Rightarrow> Inl e | Inr y \<Rightarrow> Inr (fmul x y)))"

definition py_add :: "pyfloat result \<Rightarrow> pyfloat result \<Rightarrow> pyfloat result" where
  "py_add a b =
     (case a of Inl e \<Rightarrow> Inl e | Inr x \<Rightarrow> (case b of Inl e \<Rightarrow> Inl e | Inr y \<Rightarrow> Inr (fadd x y)))"

definition py_truediv :: "pyfloat result \<Rightarrow> pyfloat result \<Rightarrow> pyfloat result" where
  "py_truediv a b =
     (case a of Inl e \<Rightarrow> Inl e | Inr x \<Rightarrow> (case b of Inl e \<Rightarrow> Inl e | Inr y \<Rightarrow> fdiv x y))"

definition py_pow2 :: "pyfloat result \<Rightarrow> pyfloat result" where
  "py_pow2 a = (case a of Inl e \<Rightarrow> Inl e | Inr x \<Rightarrow> fpow2 x)"

text \<open>The comparison \<^verbatim>\<open>x < 0\<close> of a float with the integer zero.\<close>

fun float_lt_zero :: "pyfloat \<Rightarrow> bool" where
  "float_lt_zero (Finite s m) = (s \<and> 0 < m)"
| "float_lt_zero (Infinity s) = s"
| "float_lt_zero NaN = False"

section \<open>Values\<close>

text \<open>
  The values that reach the validators are dynamically typed, and the validators test
  \<^verbatim>\<open>type(x) is int\<close> and \<^verbatim>\<open>type(x) is float\<close>, so arguments are values of \<open>pyval\<close>.
  \<^verbatim>\<open>bool\<close> is a constructor of its own: \<^verbatim>\<open>type(True) is int\<close> is false. A Python
  \<^verbatim>\<open>int\<close> is unbounded, hence \<open>int\<close>. A \<^verbatim>\<open>str\<close> is represented by its UTF-8 encoding, a
  \<open>string\<close>.
\<close>

datatype pyval = PyInt int | PyFloat pyfloat | PyBool bool | PyStr string | PyNone

section \<open>The built-in fixed-point format \<^verbatim>\<open>.3f\<close>\<close>

text \<open>
  \<^verbatim>\<open>format(x, '.3f')\<close> of a finite float writes the decimal numeral with three fractional
  digits that is nearest to its exact value, a tie going to the even last digit, after a
  minus sign when the sign bit is set (also for the negative zero, and when the digits
  are all zero). An infinity is written \<^verbatim>\<open>inf\<close> or \<^verbatim>\<open>-inf\<close> and a NaN \<^verbatim>\<open>nan\<close>.
\<close>

definition digit_char :: "nat \<Rightarrow> char" where
  "digit_char d = ''0123456789'' ! (d mod 10)"

fun nat_digits :: "nat \<Rightarrow> string" where
  "nat_digits n =
     (if n < 10 then [digit_char n] else nat_digits (n div 10) @ [digit_char (n mod 10)])"

text \<open>The equation of \<open>nat_digits\<close> rewrites its own right-hand side: it is used by hand.\<close>

declare nat_digits.simps [simp del]

definition fixed_3 :: "real \<Rightarrow> string" where
  "fixed_3 m =
     (let n = nat (round_half_even (m * 1000))
      in nat_digits (n div 1000) @ ''.'' @
         [digit_char (n div 100 mod 10), digit_char (n div 10 mod 10), digit_char (n mod 10)])"

fun format_3f :: "pyfloat \<Rightarrow> string" where
  "format_3f (Finite s m) = (if s then ''-'' else '''') @ fixed_3 m"
| "format_3f (Infinity s) = (if s then ''-inf'' else ''inf'')"
| "format_3f NaN = ''nan''"

text \<open>
  The format specification \<^verbatim>\<open>:.3f\<close> applied to a value of any type: an \<^verbatim>\<open>int\<close> or a
  \<^verbatim>\<open>bool\<close> is converted to a float first, a \<^verbatim>\<open>str\<close> raises \<^verbatim>\<open>ValueError\<close> (unknown format
  code), \<^verbatim>\<open>None\<close> raises \<^verbatim>\<open>TypeError\<close> (unsupported format string).
\<close>

fun format_spec_3f :: "pyval \<Rightarrow> string result" where
  "format_spec_3f (PyFloat x) = Inr (format_3f x)"
| "format_spec_3f (PyInt n) =
     (case int_to_float n of Inl e \<Rightarrow> Inl e | Inr x \<Rightarrow> Inr (format_3f x))"
| "format_spec_3f (PyBool b) = Inr (format_3f (Finite False (if b then 1 else 0)))"
| "format_spec_3f (PyStr s) = Inl (Runtime ValueError)"
| "format_spec_3f PyNone = Inl (Runtime TypeError)"

section \<open>InfoMessage\<close>

text \<open>
  The dataclass \<^verbatim>\<open>InfoMessage\<close>. Its numeric fields are annotated \<^verbatim>\<open>float\<close>, which a
  dataclass does not enforce: \<^verbatim>\<open>show_training_info\<close> of a plain \<^verbatim>\<open>Training\<close> stores
  \<^verbatim>\<open>None\<close> in \<^verbatim>\<open>calories\<close>. So they hold a \<open>pyval\<close>.
\<close>

record InfoMessage =
  training_type :: string
  duration :: pyval
  distance :: pyval
  speed :: pyval
  calories :: pyval

text \<open>
  The literal pieces of the template of \<^verbatim>\<open>get_message\<close>, in UTF-8. The template is in
  Russian; in English it reads \<^verbatim>\<open>Training type: {training_type}; Duration: {duration:.3f} h.;
  Distance: {distance:.3f} km; Mean speed: {speed:.3f} km/h; Calories spent: {calories:.3f}.\<close>
\<close>

definition text_training_type :: string where
  "text_training_type =
     [CHR 0xD0, CHR 0xA2, CHR 0xD0, CHR 0xB8, CHR 0xD0, CHR 0xBF] @ '' '' @ [CHR 0xD1,
     CHR 0x82, CHR 0xD1, CHR 0x80, CHR 0xD0, CHR 0xB5, CHR 0xD0, CHR 0xBD, CHR 0xD0,
     CHR 0xB8, CHR 0xD1, CHR 0x80, CHR 0xD0, CHR 0xBE, CHR 0xD0, CHR 0xB2, CHR 0xD0,
     CHR 0xBA, CHR 0xD0, CHR 0xB8] @ '': ''"

definition text_duration :: string where
  "text_duration =
     ''; '' @ [CHR 0xD0, CHR 0x94, CHR 0xD0, CHR 0xBB, CHR 0xD0, CHR 0xB8, CHR 0xD1,
     CHR 0x82, CHR 0xD0, CHR 0xB5, CHR 0xD0, CHR 0xBB, CHR 0xD1, CHR 0x8C, CHR 0xD0,
     CHR 0xBD, CHR 0xD0, CHR 0xBE, CHR 0xD1, CHR 0x81, CHR 0xD1, CHR 0x82, CHR 0xD1,
     CHR 0x8C] @ '': ''"

definition text_distance :: string where
  "text_distance =
     '' '' @ [CHR 0xD1, CHR 0x87] @ ''.; '' @ [CHR 0xD0, CHR 0x94, CHR 0xD0, CHR 0xB8,
     CHR 0xD1, CHR 0x81, CHR 0xD1, CHR 0x82, CHR 0xD0, CHR 0xB0, CHR 0xD0, CHR 0xBD,
     CHR 0xD1, CHR 0x86, CHR 0xD0, CHR 0xB8, CHR 0xD1, CHR 0x8F] @ '': ''"

definition text_speed :: string where
  "text_speed =
     '' '' @ [CHR 0xD0, CHR 0xBA, CHR 0xD0, CHR 0xBC] @ ''; '' @ [CHR 0xD0, CHR 0xA1,
     CHR 0xD1, CHR 0x80] @ ''. '' @ [CHR 0xD1, CHR 0x81, CHR 0xD0, CHR 0xBA, CHR 0xD0,
     CHR 0xBE, CHR 0xD1, CHR 0x80, CHR 0xD0, CHR 0xBE, CHR 0xD1, CHR 0x81, CHR 0xD1,
     CHR 0x82, CHR 0xD1, CHR 0x8C] @ '': ''"

definition text_calories :: string where
  "text_calories =
     '' '' @ [CHR 0xD0, CHR 0xBA, CHR 0xD0, CHR 0xBC] @ ''/'' @ [CHR 0xD1, CHR 0x87] @
     ''; '' @ [CHR 0xD0, CHR 0x9F, CHR 0xD0, CHR 0xBE, CHR 0xD1, CHR 0x82, CHR 0xD1,
     CHR 0x80, CHR 0xD0, CHR 0xB0, CHR 0xD1, CHR 0x87, CHR 0xD0, CHR 0xB5, CHR 0xD0,
     CHR 0xBD, CHR 0xD0, CHR 0xBE] @ '' '' @ [CHR 0xD0, CHR 0xBA, CHR 0xD0, CHR 0xBA,
     CHR 0xD0, CHR 0xB0, CHR 0xD0, CHR 0xBB] @ '': ''"

definition text_end :: string where
  "text_end =
     ''.''"

text \<open>
  \<^verbatim>\<open>get_message\<close>: \<^verbatim>\<open>str.format\<close> fills the fields from left to right, so the first
  field that cannot be formatted decides the exception.
\<close>

definition get_message :: "InfoMessage \<Rightarrow> string result" where
  "get_message m =
     (case format_spec_3f (InfoMessage.duration m) of Inl e \<Rightarrow> Inl e | Inr d \<Rightarrow>
     (case format_spec_3f (distance m) of Inl e \<Rightarrow> Inl e | Inr s \<Rightarrow>
     (case format_spec_3f (speed m) of Inl e \<Rightarrow> Inl e | Inr v \<Rightarrow>
     (case format_spec_3f (calories m) of Inl e \<Rightarrow> Inl e | Inr c \<Rightarrow>
        Inr (text_training_type @ training_type m @ text_duration @ d @ text_distance @ s @
             text_speed @ v @ text_calories @ c @ text_end)))))"

section \<open>Training and its subclasses\<close>

text \<open>The messages of the exceptions the validators and \<^verbatim>\<open>read_package\<close> raise.\<close>

definition msg_action :: string where
  "msg_action =
     [CHR 0xD0, CHR 0x9A, CHR 0xD0, CHR 0xBE, CHR 0xD0, CHR 0xBB] @ ''-'' @ [CHR 0xD0,
     CHR 0xB2, CHR 0xD0, CHR 0xBE] @ '' '' @ [CHR 0xD1, CHR 0x88, CHR 0xD0, CHR 0xB0,
     CHR 0xD0, CHR 0xB3, CHR 0xD0, CHR 0xBE, CHR 0xD0, CHR 0xB2] @ '' '' @ [CHR 0xD0,
     CHR 0xB4, CHR 0xD0, CHR 0xBE, CHR 0xD0, CHR 0xBB, CHR 0xD0, CHR 0xB6, CHR 0xD0,
     CHR 0xBD, CHR 0xD0, CHR 0xBE] @ '' '' @ [CHR 0xD0, CHR 0xB1, CHR 0xD1, CHR 0x8B,
     CHR 0xD1, CHR 0x82, CHR 0xD1, CHR 0x8C] @ '' '' @ [CHR 0xD1, CHR 0x82, CHR 0xD0,
     CHR 0xB8, CHR 0xD0, CHR 0xBF, CHR 0xD0, CHR 0xB0] @ '' int '' @ [CHR 0xD0, CHR 0xB8] @
     '' '' @ [CHR 0xD0, CHR 0xB1, CHR 0xD0, CHR 0xBE, CHR 0xD0, CHR 0xBB, CHR 0xD1, CHR 0x8C,
     CHR 0xD1, CHR 0x88, CHR 0xD0, CHR 0xB5] @ '' 0''"

definition msg_duration :: string where
  "msg_duration =
     [CHR 0xD0, CHR 0x94, CHR 0xD0, CHR 0xBB, CHR 0xD0, CHR 0xB8, CHR 0xD1, CHR 0x82,
     CHR 0xD0, CHR 0xB5, CHR 0xD0, CHR 0xBB, CHR 0xD1, CHR 0x8C, CHR 0xD0, CHR 0xBD,
     CHR 0xD0, CHR 0xBE, CHR 0xD1, CHR 0x81, CHR 0xD1, CHR 0x82, CHR 0xD1, CHR 0x8C] @
     '' '' @ [CHR 0xD1, CHR 0x82, CHR 0xD1, CHR 0x80, CHR 0xD0, CHR 0xB5, CHR 0xD0, CHR 0xBD,
     CHR 0xD0, CHR 0xB8, CHR 0xD1, CHR 0x80, CHR 0xD0, CHR 0xBE, CHR 0xD0, CHR 0xB2,
     CHR 0xD0, CHR 0xBA, CHR 0xD0, CHR 0xB8] @ '' '' @ [CHR 0xD0, CHR 0xB4, CHR 0xD0,
     CHR 0xBE, CHR 0xD0, CHR 0xBB, CHR 0xD0, CHR 0xB6, CHR 0xD0, CHR 0xBD, CHR 0xD0,
     CHR 0xB0] @ '' '' @ [CHR 0xD0, CHR 0xB1, CHR 0xD1, CHR 0x8B, CHR 0xD1, CHR 0x82,
     CHR 0xD1, CHR 0x8C] @ '' '' @ [CHR 0xD1, CHR 0x82, CHR 0xD0, CHR 0xB8, CHR 0xD0,
     CHR 0xBF, CHR 0xD0, CHR 0xB0] @ '' float '' @ [CHR 0xD0, CHR 0xB8] @ '' '' @ [CHR 0xD0,
     CHR 0xB1, CHR 0xD0, CHR 0xBE, CHR 0xD0, CHR 0xBB, CHR 0xD1, CHR 0x8C, CHR 0xD1,
     CHR 0x88, CHR 0xD0, CHR 0xB5] @ '' 0''"

definition msg_weight :: string where
  "msg_weight =
     [CHR 0xD0, CHR 0x92, CHR 0xD0, CHR 0xB5, CHR 0xD1, CHR 0x81] @ '' '' @ [CHR 0xD0,
     CHR 0xB4, CHR 0xD0, CHR 0xBE, CHR 0xD0, CHR 0xBB, CHR 0xD0, CHR 0xB6, CHR 0xD0,
     CHR 0xB5, CHR 0xD0, CHR 0xBD] @ '' '' @ [CHR 0xD0, CHR 0xB1, CHR 0xD1, CHR 0x8B,
     CHR 0xD1, CHR 0x82, CHR 0xD1, CHR 0x8C] @ '' '' @ [CHR 0xD1, CHR 0x82, CHR 0xD0,
     CHR 0xB8, CHR 0xD0, CHR 0xBF, CHR 0xD0, CHR 0xB0] @ '' float '' @ [CHR 0xD0, CHR 0xB8] @
     '' '' @ [CHR 0xD0, CHR 0xB1, CHR 0xD0, CHR 0xBE, CHR 0xD0, CHR 0xBB, CHR 0xD1, CHR 0x8C,
     CHR 0xD1, CHR 0x88, CHR 0xD0, CHR 0xB5] @ '' 0''"

definition msg_height :: string where
  "msg_height =
     [CHR 0xD0, CHR 0xA0, CHR 0xD0, CHR 0xBE, CHR 0xD1, CHR 0x81, CHR 0xD1, CHR 0x82] @
     '' '' @ [CHR 0xD0, CHR 0xB4, CHR 0xD0, CHR 0xBE, CHR 0xD0, CHR 0xBB, CHR 0xD0, CHR 0xB6,
     CHR 0xD0, CHR 0xB5, CHR 0xD0, CHR 0xBD] @ '' '' @ [CHR 0xD0, CHR 0xB1, CHR 0xD1,
     CHR 0x8B, CHR 0xD1, CHR 0x82, CHR 0xD1, CHR 0x8C] @ '' '' @ [CHR 0xD1, CHR 0x82,
     CHR 0xD0, CHR 0xB8, CHR 0xD0, CHR 0xBF, CHR 0xD0, CHR 0xB0] @ '' float '' @ [CHR 0xD0,
     CHR 0xB8] @ '' '' @ [CHR 0xD0, CHR 0xB1, CHR 0xD0, CHR 0xBE, CHR 0xD0, CHR 0xBB,
     CHR 0xD1, CHR 0x8C, CHR 0xD1, CHR 0x88, CHR 0xD0, CHR 0xB5] @ '' 0''"

definition msg_length_pool :: string where
  "msg_length_pool =
     [CHR 0xD0, CHR 0x94, CHR 0xD0, CHR 0xBB, CHR 0xD0, CHR 0xB8, CHR 0xD0, CHR 0xBD,
     CHR 0xD0, CHR 0xB0] @ '' '' @ [CHR 0xD0, CHR 0xB1, CHR 0xD0, CHR 0xB0, CHR 0xD1,
     CHR 0x81, CHR 0xD1, CHR 0x81, CHR 0xD0, CHR 0xB5, CHR 0xD0, CHR 0xB9, CHR 0xD0,
     CHR 0xBD, CHR 0xD0, CHR 0xB0] @ '' '' @ [CHR 0xD0, CHR 0xB4, CHR 0xD0, CHR 0xBE,
     CHR 0xD0, CHR 0xBB, CHR 0xD0, CHR 0xB6, CHR 0xD0, CHR 0xBD, CHR 0xD0, CHR 0xB0] @
     '' '' @ [CHR 0xD0, CHR 0xB1, CHR 0xD1, CHR 0x8B, CHR 0xD1, CHR 0x82, CHR 0xD1,
     CHR 0x8C] @ '' '' @ [CHR 0xD1, CHR 0x82, CHR 0xD0, CHR 0xB8, CHR 0xD0, CHR 0xBF,
     CHR 0xD0, CHR 0xB0] @ '' float '' @ [CHR 0xD0, CHR 0xB8] @ '' '' @ [CHR 0xD0, CHR 0xB1,
     CHR 0xD0, CHR 0xBE, CHR 0xD0, CHR 0xBB, CHR 0xD1, CHR 0x8C, CHR 0xD1, CHR 0x88,
     CHR 0xD0, CHR 0xB5] @ '' 0''"

definition msg_count_pool :: string where
  "msg_count_pool =
     [CHR 0xD0, CHR 0xA7, CHR 0xD0, CHR 0xB8, CHR 0xD1, CHR 0x81, CHR 0xD0, CHR 0xBB,
     CHR 0xD0, CHR 0xBE] @ '' '' @ [CHR 0xD0, CHR 0xB7, CHR 0xD0, CHR 0xB0, CHR 0xD0,
     CHR 0xBF, CHR 0xD0, CHR 0xBB, CHR 0xD1, CHR 0x8B, CHR 0xD0, CHR 0xB2, CHR 0xD0,
     CHR 0xBE, CHR 0xD0, CHR 0xB2] @ '' '' @ [CHR 0xD0, CHR 0xB4, CHR 0xD0, CHR 0xBE,
     CHR 0xD0, CHR 0xBB, CHR 0xD0, CHR 0xB6, CHR 0xD0, CHR 0xBD, CHR 0xD0, CHR 0xBE] @
     '' '' @ [CHR 0xD0, CHR 0xB1, CHR 0xD1, CHR 0x8B, CHR 0xD1, CHR 0x82, CHR 0xD1,
     CHR 0x8C] @ '' '' @ [CHR 0xD1, CHR 0x82, CHR 0xD0, CHR 0xB8, CHR 0xD0, CHR 0xBF,
     CHR 0xD0, CHR 0xB0] @ '' int '' @ [CHR 0xD0, CHR 0xB8] @ '' '' @ [CHR 0xD0, CHR 0xB1,
     CHR 0xD0, CHR 0xBE, CHR 0xD0, CHR 0xBB, CHR 0xD1, CHR 0x8C, CHR 0xD1, CHR 0x88,
     CHR 0xD0, CHR 0xB5] @ '' 0''"

definition msg_workout_type :: string where
  "msg_workout_type =
     [CHR 0xD0, CHR 0x9F, CHR 0xD1, CHR 0x80, CHR 0xD0, CHR 0xB8, CHR 0xD1, CHR 0x88,
     CHR 0xD0, CHR 0xB5, CHR 0xD0, CHR 0xBB] @ '' '' @ [CHR 0xD0, CHR 0xBD, CHR 0xD0,
     CHR 0xB5, CHR 0xD0, CHR 0xBE, CHR 0xD0, CHR 0xB6, CHR 0xD0, CHR 0xB8, CHR 0xD0,
     CHR 0xB4, CHR 0xD0, CHR 0xB0, CHR 0xD0, CHR 0xBD, CHR 0xD0, CHR 0xBD, CHR 0xD1,
     CHR 0x8B, CHR 0xD0, CHR 0xB9] @ '' '' @ [CHR 0xD1, CHR 0x82, CHR 0xD0, CHR 0xB8,
     CHR 0xD0, CHR 0xBF] @ '' '' @ [CHR 0xD1, CHR 0x82, CHR 0xD1, CHR 0x80, CHR 0xD0,
     CHR 0xB5, CHR 0xD0, CHR 0xBD, CHR 0xD0, CHR 0xB8, CHR 0xD1, CHR 0x80, CHR 0xD0,
     CHR 0xBE, CHR 0xD0, CHR 0xB2, CHR 0xD0, CHR 0xBA, CHR 0xD0, CHR 0xB8]"

text \<open>
  The class constants. \<^verbatim>\<open>M_IN_KM\<close>, \<^verbatim>\<open>MIN_IN_H\<close> and the integer coefficients are Python
  ints; the others are float literals. The private constants carry the name of their
  class, as Python's name mangling gives them.
\<close>

definition M_IN_KM :: int where "M_IN_KM = 1000"
definition MIN_IN_H :: int where "MIN_IN_H = 60"

definition Running_CALORIES_MEAN_SPEED_MULTIPLIER :: int where
  "Running_CALORIES_MEAN_SPEED_MULTIPLIER = 18"
definition Running_CALORIES_MEAN_SPEED_SHIFT :: pyfloat where
  "Running_CALORIES_MEAN_SPEED_SHIFT = float_lit 1.79"

definition SportsWalking_CALORIES_WEIGHT_MULTIPLIER :: pyfloat where
  "SportsWalking_CALORIES_WEIGHT_MULTIPLIER = float_lit 0.035"
definition SportsWalking_CALORIES_SPEED_HEIGHT_MULTIPLIER :: pyfloat where
  "SportsWalking_CALORIES_SPEED_HEIGHT_MULTIPLIER = float_lit 0.029"
definition SportsWalking_KMH_IN_MSEC :: pyfloat where
  "SportsWalking_KMH_IN_MSEC = float_lit 0.278"
definition SportsWalking_CM_IN_M :: int where
  "SportsWalking_CM_IN_M = 100"

definition Swimming_CALORIES_WEIGHT_MULTIPLIER :: int where
  "Swimming_CALORIES_WEIGHT_MULTIPLIER = 2"
definition Swimming_CALORIES_MEAN_SPEED_SHIFT :: pyfloat where
  "Swimming_CALORIES_MEAN_SPEED_SHIFT = float_lit 1.1"

text \<open>
  An instance. The three attributes of \<^verbatim>\<open>Training\<close> are only ever written by their
  property setters, after the validator has accepted the value, so they are stored with
  the type the validator checked. \<^verbatim>\<open>SportsWalking\<close> adds \<^verbatim>\<open>height\<close>; \<^verbatim>\<open>Swimming\<close> adds
  \<^verbatim>\<open>length_pool\<close> and \<^verbatim>\<open>count_pool\<close>. \<^verbatim>\<open>Training\<close> itself can be instantiated.
\<close>

record training_attrs =
  action :: int
  duration :: pyfloat
  weight :: pyfloat

datatype training =
    Training training_attrs
  | Running training_attrs
  | SportsWalking training_attrs pyfloat
  | Swimming training_attrs pyfloat int

fun attrs :: "training \<Rightarrow> training_attrs" where
  "attrs (Training a) = a"
| "attrs (Running a) = a"
| "attrs (SportsWalking a height) = a"
| "attrs (Swimming a length_pool count_pool) = a"

fun map_attrs :: "(training_attrs \<Rightarrow> training_attrs) \<Rightarrow> training \<Rightarrow> training" where
  "map_attrs f (Training a) = Training (f a)"
| "map_attrs f (Running a) = Running (f a)"
| "map_attrs f (SportsWalking a height) = SportsWalking (f a) height"
| "map_attrs f (Swimming a length_pool count_pool) = Swimming (f a) length_pool count_pool"

text \<open>\<^verbatim>\<open>self.__class__.__name__\<close>.\<close>

fun class_name :: "training \<Rightarrow> string" where
  "class_name (Training a) = ''Training''"
| "class_name (Running a) = ''Running''"
| "class_name (SportsWalking a height) = ''SportsWalking''"
| "class_name (Swimming a length_pool count_pool) = ''Swimming''"

text \<open>\<^verbatim>\<open>self.LEN_STEP\<close>: \<^verbatim>\<open>Swimming\<close> overrides the class attribute of \<^verbatim>\<open>Training\<close>.\<close>

fun LEN_STEP :: "training \<Rightarrow> pyfloat" where
  "LEN_STEP (Swimming a length_pool count_pool) = float_lit 1.38"
| "LEN_STEP t = float_lit 0.65"

subsection \<open>The validators\<close>

text \<open>
  Each validator raises \<^verbatim>\<open>TypeError\<close> when \<^verbatim>\<open>type(x) is not T or x < 0\<close>. The comparison
  is evaluated only for a value of type \<^verbatim>\<open>T\<close>. A validator returns nothing in the source;
  here it returns the value it accepted, with its type, for the setter to store.
\<close>

definition verify_action :: "pyval \<Rightarrow> int result" where
  "verify_action v =
     (case v of
        PyInt n \<Rightarrow> if n < 0 then Inl (Raised TypeError msg_action) else Inr n
      | _ \<Rightarrow> Inl (Raised TypeError msg_action))"

definition verify_duration :: "pyval \<Rightarrow> pyfloat result" where
  "verify_duration v =
     (case v of
        PyFloat x \<Rightarrow> if float_lt_zero x then Inl (Raised TypeError msg_duration) else Inr x
      | _ \<Rightarrow> Inl (Raised TypeError msg_duration))"

definition verify_weight :: "pyval \<Rightarrow> pyfloat result" where
  "verify_weight v =
     (case v of
        PyFloat x \<Rightarrow> if float_lt_zero x then Inl (Raised TypeError msg_weight) else Inr x
      | _ \<Rightarrow> Inl (Raised TypeError msg_weight))"

definition verify_height :: "pyval \<Rightarrow> pyfloat result" where
  "verify_height v =
     (case v of
        PyFloat x \<Rightarrow> if float_lt_zero x then Inl (Raised TypeError msg_height) else Inr x
      | _ \<Rightarrow> Inl (Raised TypeError msg_height))"

definition verify_length_pool :: "pyval \<Rightarrow> pyfloat result" where
  "verify_length_pool v =
     (case v of
        PyFloat x \<Rightarrow> if float_lt_zero x then Inl (Raised TypeError msg_length_pool) else Inr x
      | _ \<Rightarrow> Inl (Raised TypeError msg_length_pool))"

definition verify_count_pool :: "pyval \<Rightarrow> int result" where
  "verify_count_pool v =
     (case v of
        PyInt n \<Rightarrow> if n < 0 then Inl (Raised TypeError msg_count_pool) else Inr n
      | _ \<Rightarrow> Inl (Raised TypeError msg_count_pool))"

subsection \<open>The property setters of Training\<close>

text \<open>An assignment \<^verbatim>\<open>t.action = v\<close> to an existing instance, and its two siblings.\<close>

definition action_setter :: "pyval \<Rightarrow> training \<Rightarrow> training result" where
  "action_setter v t =
     (case verify_action v of Inl e \<Rightarrow> Inl e
      | Inr n \<Rightarrow> Inr (map_attrs (\<lambda>a. a\<lparr>action := n\<rparr>) t))"

definition duration_setter :: "pyval \<Rightarrow> training \<Rightarrow> training result" where
  "duration_setter v t =
     (case verify_duration v of Inl e \<Rightarrow> Inl e
      | Inr x \<Rightarrow> Inr (map_attrs (\<lambda>a. a\<lparr>duration := x\<rparr>) t))"

definition weight_setter :: "pyval \<Rightarrow> training \<Rightarrow> training result" where
  "weight_setter v t =
     (case verify_weight v of Inl e \<Rightarrow> Inl e
      | Inr x \<Rightarrow> Inr (map_attrs (\<lambda>a. a\<lparr>weight := x\<rparr>) t))"

subsection \<open>Construction\<close>

text \<open>
  \<^verbatim>\<open>Training.__init__\<close> assigns \<^verbatim>\<open>action\<close>, \<^verbatim>\<open>duration\<close> and \<^verbatim>\<open>weight\<close> in this order, each
  through its setter; the first validator that refuses ends the construction.
\<close>

definition Training_init :: "pyval \<Rightarrow> pyval \<Rightarrow> pyval \<Rightarrow> training_attrs result" where
  "Training_init a d w =
     (case verify_action a of Inl e \<Rightarrow> Inl e | Inr n \<Rightarrow>
     (case verify_duration d of Inl e \<Rightarrow> Inl e | Inr x \<Rightarrow>
     (case verify_weight w of Inl e \<Rightarrow> Inl e | Inr y \<Rightarrow>
        Inr \<lparr>action = n, duration = x, weight = y\<rparr>)))"

text \<open>The calls \<^verbatim>\<open>Training(...)\<close>, \<^verbatim>\<open>Running(...)\<close>, \<^verbatim>\<open>SportsWalking(...)\<close>, \<^verbatim>\<open>Swimming(...)\<close>.\<close>

definition new_Training :: "pyval \<Rightarrow> pyval \<Rightarrow> pyval \<Rightarrow> training result" where
  "new_Training a d w =
     (case Training_init a d w of Inl e \<Rightarrow> Inl e | Inr b \<Rightarrow> Inr (Training b))"

definition new_Running :: "pyval \<Rightarrow> pyval \<Rightarrow> pyval \<Rightarrow> training result" where
  "new_Running a d w =
     (case Training_init a d w of Inl e \<Rightarrow> Inl e | Inr b \<Rightarrow> Inr (Running b))"

definition new_SportsWalking :: "pyval \<Rightarrow> pyval \<Rightarrow> pyval \<Rightarrow> pyval \<Rightarrow> training result" where
  "new_SportsWalking a d w h =
     (case Training_init a d w of Inl e \<Rightarrow> Inl e | Inr b \<Rightarrow>
     (case verify_height h of Inl e \<Rightarrow> Inl e | Inr height \<Rightarrow>
        Inr (SportsWalking b height)))"

definition new_Swimming ::
  "pyval \<Rightarrow> pyval \<Rightarrow> pyval \<Rightarrow> pyval \<Rightarrow> pyval \<Rightarrow> training result" where
  "new_Swimming a d w l c =
     (case Training_init a d w of Inl e \<Rightarrow> Inl e | Inr b \<Rightarrow>
     (case verify_length_pool l of Inl e \<Rightarrow> Inl e | Inr length_pool \<Rightarrow>
     (case verify_count_pool c of Inl e \<Rightarrow> Inl e | Inr count_pool \<Rightarrow>
        Inr (Swimming b length_pool count_pool))))"

subsection \<open>The methods\<close>

text \<open>
  \<^verbatim>\<open>get_distance\<close>, inherited by every subclass: \<^verbatim>\<open>self.action * self.LEN_STEP /
  self.M_IN_KM\<close>, with \<^verbatim>\<open>LEN_STEP\<close> read through \<^verbatim>\<open>self\<close>.
\<close>

definition get_distance :: "training \<Rightarrow> pyfloat result" where
  "get_distance t =
     py_truediv (py_mul (int_to_float (action (attrs t))) (Inr (LEN_STEP t)))
       (int_to_float M_IN_KM)"

text \<open>
  \<^verbatim>\<open>Training.get_mean_speed\<close>, which \<^verbatim>\<open>Running\<close> and \<^verbatim>\<open>SportsWalking\<close> reach through
  \<^verbatim>\<open>super()\<close>: \<^verbatim>\<open>(self.action * self.LEN_STEP / self.M_IN_KM) / self.duration\<close>. A call
  \<^verbatim>\<open>get_mean_speed\<close> on an instance dispatches: \<^verbatim>\<open>Swimming\<close> overrides the method with
  \<^verbatim>\<open>self.length_pool * self.count_pool / self.M_IN_KM / self.duration\<close>.
\<close>

definition Training_get_mean_speed :: "training \<Rightarrow> pyfloat result" where
  "Training_get_mean_speed t =
     py_truediv
       (py_truediv (py_mul (int_to_float (action (attrs t))) (Inr (LEN_STEP t)))
          (int_to_float M_IN_KM))
       (Inr (duration (attrs t)))"

fun get_mean_speed :: "training \<Rightarrow> pyfloat result" where
  "get_mean_speed (Swimming a length_pool count_pool) =
     py_truediv
       (py_truediv (py_mul (Inr length_pool) (int_to_float count_pool)) (int_to_float M_IN_KM))
       (Inr (duration a))"
| "get_mean_speed t = Training_get_mean_speed t"

text \<open>A float result as a value.\<close>

definition as_pyval :: "pyfloat result \<Rightarrow> pyval result" where
  "as_pyval r = (case r of Inl e \<Rightarrow> Inl e | Inr x \<Rightarrow> Inr (PyFloat x))"

text \<open>
  \<^verbatim>\<open>get_spent_calories\<close>. The body of \<^verbatim>\<open>Training.get_spent_calories\<close> is \<^verbatim>\<open>pass\<close>: the
  call returns \<^verbatim>\<open>None\<close>. Each subclass overrides it:

  Running, after \<^verbatim>\<open>mean_speed = super().get_mean_speed()\<close>:
  \<^verbatim>\<open>(18 * mean_speed + 1.79) * self.weight / self.M_IN_KM * self.duration * self.MIN_IN_H\<close>

  SportsWalking:
  \<^verbatim>\<open>(0.035 * self.weight + ((super().get_mean_speed() * 0.278)**2 / (self.height / 100))
  * 0.029 * self.weight) * self.duration * self.MIN_IN_H\<close>

  Swimming, after \<^verbatim>\<open>mean_speed = self.get_mean_speed()\<close>:
  \<^verbatim>\<open>(mean_speed + 1.1) * 2 * self.weight * self.duration\<close>
\<close>

fun get_spent_calories :: "training \<Rightarrow> pyval result" where
  "get_spent_calories (Training a) = Inr PyNone"
| "get_spent_calories (Running a) =
     (case Training_get_mean_speed (Running a) of Inl e \<Rightarrow> Inl e | Inr mean_speed \<Rightarrow>
        as_pyval
          (py_mul
            (py_mul
              (py_truediv
                (py_mul
                  (py_add
                    (py_mul (int_to_float Running_CALORIES_MEAN_SPEED_MULTIPLIER) (Inr mean_speed))
                    (Inr Running_CALORIES_MEAN_SPEED_SHIFT))
                  (Inr (weight a)))
                (int_to_float M_IN_KM))
              (Inr (duration a)))
            (int_to_float MIN_IN_H)))"
| "get_spent_calories (SportsWalking a height) =
     as_pyval
       (py_mul
         (py_mul
           (py_add
             (py_mul (Inr SportsWalking_CALORIES_WEIGHT_MULTIPLIER) (Inr (weight a)))
             (py_mul
               (py_mul
                 (py_truediv
                   (py_pow2
                     (py_mul (Training_get_mean_speed (SportsWalking a height))
                        (Inr SportsWalking_KMH_IN_MSEC)))
                   (py_truediv (Inr height) (int_to_float SportsWalking_CM_IN_M)))
                 (Inr SportsWalking_CALORIES_SPEED_HEIGHT_MULTIPLIER))
               (Inr (weight a))))
           (Inr (duration a)))
         (int_to_float MIN_IN_H))"
| "get_spent_calories (Swimming a length_pool count_pool) =
     (case get_mean_speed (Swimming a length_pool count_pool) of Inl e \<Rightarrow> Inl e
      | Inr mean_speed \<Rightarrow>
        as_pyval
          (py_mul
            (py_mul
              (py_mul
                (py_add (Inr mean_speed) (Inr Swimming_CALORIES_MEAN_SPEED_SHIFT))
                (int_to_float Swimming_CALORIES_WEIGHT_MULTIPLIER))
              (Inr (weight a)))
            (Inr (duration a))))"

text \<open>
  \<^verbatim>\<open>show_training_info\<close>: the arguments of \<^verbatim>\<open>InfoMessage(...)\<close> are evaluated from left to
  right: \<^verbatim>\<open>get_distance\<close>, then \<^verbatim>\<open>get_mean_speed\<close>, then \<^verbatim>\<open>get_spent_calories\<close>.
\<close>

definition show_training_info :: "training \<Rightarrow> InfoMessage result" where
  "show_training_info t =
     (case get_distance t of Inl e \<Rightarrow> Inl e | Inr s \<Rightarrow>
     (case get_mean_speed t of Inl e \<Rightarrow> Inl e | Inr v \<Rightarrow>
     (case get_spent_calories t of Inl e \<Rightarrow> Inl e | Inr c \<Rightarrow>
        Inr \<lparr>training_type = class_name t,
             InfoMessage.duration = PyFloat (duration (attrs t)),
             distance = PyFloat s,
             speed = PyFloat v,
             calories = c\<rparr>)))"

section \<open>read_package and main\<close>

text \<open>
  A class called with the unpacked list \<^verbatim>\<open>*data\<close>: the interpreter raises \<^verbatim>\<open>TypeError\<close>
  before \<^verbatim>\<open>__init__\<close> runs when the number of arguments is not the one of the signature.
\<close>

fun Running_call :: "pyval list \<Rightarrow> training result" where
  "Running_call [a, d, w] = new_Running a d w"
| "Running_call data = Inl (Runtime TypeError)"

fun Swimming_call :: "pyval list \<Rightarrow> training result" where
  "Swimming_call [a, d, w, l, c] = new_Swimming a d w l c"
| "Swimming_call data = Inl (Runtime TypeError)"

fun SportsWalking_call :: "pyval list \<Rightarrow> training result" where
  "SportsWalking_call [a, d, w, h] = new_SportsWalking a d w h"
| "SportsWalking_call data = Inl (Runtime TypeError)"

definition dict_for_classes :: "string \<rightharpoonup> (pyval list \<Rightarrow> training result)" where
  "dict_for_classes =
     [''RUN'' \<mapsto> Running_call, ''SWM'' \<mapsto> Swimming_call, ''WLK'' \<mapsto> SportsWalking_call]"

definition read_package :: "string \<Rightarrow> pyval list \<Rightarrow> training result" where
  "read_package workout_type data =
     (case dict_for_classes workout_type of
        None \<Rightarrow> Inl (Raised KeyError msg_workout_type)
      | Some cls \<Rightarrow> cls data)"

text \<open>\<^verbatim>\<open>main\<close> prints one line; the model returns the line.\<close>

definition main :: "training \<Rightarrow> string result" where
  "main t =
     (case show_training_info t of Inl e \<Rightarrow> Inl e | Inr info \<Rightarrow> get_message info)"


section \<open>The specification's notions\<close>

text \<open>
  The number a finite float denotes, finiteness, and the comparisons \<^verbatim>\<open>x <= y\<close>,
  \<^verbatim>\<open>x > 0\<close> and \<^verbatim>\<open>x >= 0\<close> on floats. Every comparison with a NaN is false.
\<close>

definition float_value :: "pyfloat \<Rightarrow> real" where
  "float_value x = (case x of Finite s m \<Rightarrow> (if s then - m else m) | _ \<Rightarrow> 0)"

definition finite_float :: "pyfloat \<Rightarrow> bool" where
  "finite_float x = (case x of Finite s m \<Rightarrow> 0 \<le> m | _ \<Rightarrow> False)"

fun float_le :: "pyfloat \<Rightarrow> pyfloat \<Rightarrow> bool" where
  "float_le NaN y = False"
| "float_le x NaN = False"
| "float_le (Infinity s) (Infinity t) = (s \<or> \<not> t)"
| "float_le (Infinity s) (Finite t n) = s"
| "float_le (Finite s m) (Infinity t) = (\<not> t)"
| "float_le (Finite s m) (Finite t n) = ((if s then - m else m) \<le> (if t then - n else n))"

fun float_gt_zero :: "pyfloat \<Rightarrow> bool" where
  "float_gt_zero (Finite s m) = (\<not> s \<and> 0 < m)"
| "float_gt_zero (Infinity s) = (\<not> s)"
| "float_gt_zero NaN = False"

fun float_ge_zero :: "pyfloat \<Rightarrow> bool" where
  "float_ge_zero (Finite s m) = (\<not> (s \<and> 0 < m))"
| "float_ge_zero (Infinity s) = (\<not> s)"
| "float_ge_zero NaN = False"

text \<open>
  The calorie formula of Running in the specification's words, with its constants, over
  the real numbers: (speed_coefficient * mean_speed + speed_shift) * weight /
  meters_per_km * duration * minutes_per_hour, with speed_coefficient = 18 and
  speed_shift = 1.79.
\<close>

definition spec_running_calories :: "real \<Rightarrow> real \<Rightarrow> real \<Rightarrow> real" where
  "spec_running_calories mean_speed_kmh weight_kg duration_hours =
     (18 * mean_speed_kmh + 1.79) * weight_kg / 1000 * duration_hours * 60"

text \<open>A result of \<open>get_spent_calories\<close> is a float within a tolerance of an expected value.\<close>

definition calories_within :: "real \<Rightarrow> real \<Rightarrow> pyval result \<Rightarrow> bool" where
  "calories_within tolerance expected r =
     (case r of Inr (PyFloat (Finite s m)) \<Rightarrow> \<bar>(if s then - m else m) - expected\<bar> \<le> tolerance
      | _ \<Rightarrow> False)"


text \<open>
  The mean speed of Swimming in the specification's words, in float arithmetic:
  pool_length * lap_count / 1000 / duration.
\<close>

definition spec_swimming_mean_speed :: "pyfloat \<Rightarrow> int \<Rightarrow> pyfloat \<Rightarrow> pyfloat result" where
  "spec_swimming_mean_speed pool_length_m lap_count duration_hours =
     py_truediv
       (py_truediv (py_mul (Inr pool_length_m) (int_to_float lap_count)) (int_to_float 1000))
       (Inr duration_hours)"

text \<open>
  The rules of the validators in the specification's words: a value is accepted for step_count
  when it is integer-typed and at least 0, and for duration_hours and weight_kg when it
  is real-typed and at least 0. The third predicate is the second one widened by NaN.
\<close>

definition int_typed_nonneg :: "pyval \<Rightarrow> bool" where
  "int_typed_nonneg v = (case v of PyInt n \<Rightarrow> 0 \<le> n | _ \<Rightarrow> False)"

definition real_typed_nonneg :: "pyval \<Rightarrow> bool" where
  "real_typed_nonneg v = (case v of PyFloat x \<Rightarrow> float_ge_zero x | _ \<Rightarrow> False)"

definition real_typed_nonneg_or_nan :: "pyval \<Rightarrow> bool" where
  "real_typed_nonneg_or_nan v =
     (case v of PyFloat x \<Rightarrow> float_ge_zero x \<or> x = NaN | _ \<Rightarrow> False)"

text \<open>
  The report line in the specification's words, with the four numerals given as strings.
\<close>

definition spec_report_line :: "string \<Rightarrow> string \<Rightarrow> string \<Rightarrow> string \<Rightarrow> string \<Rightarrow> string" where
  "spec_report_line activity_name duration_3 distance_3 mean_speed_3 calories_3 =
     ''Activity type: '' @ activity_name @ ''; Duration: '' @ duration_3 @
     '' h; Distance: '' @ distance_3 @ '' km; Mean speed: '' @ mean_speed_3 @
     '' km/h; Calories burned: '' @ calories_3 @ ''.''"

text \<open>
  ``\<open>x\<close> to 3 decimals'': the string is an optional minus sign, at least one digit, a
  point and exactly three digits, and the number it denotes differs from \<open>x\<close> by at
  most half a thousandth.
\<close>

definition is_digit :: "char \<Rightarrow> bool" where
  "is_digit c = (c \<in> set ''0123456789'')"

definition digit_value :: "char \<Rightarrow> nat" where
  "digit_value c = length (takeWhile (\<lambda>d. d \<noteq> c) ''0123456789'')"

definition digits_value :: "string \<Rightarrow> nat" where
  "digits_value s = foldl (\<lambda>acc c. 10 * acc + digit_value c) 0 s"

definition shows_3_decimals :: "real \<Rightarrow> string \<Rightarrow> bool" where
  "shows_3_decimals x s =
     (let neg = (take 1 s = ''-'');
          body = (if neg then drop 1 s else s);
          ip = takeWhile is_digit body;
          rest = dropWhile is_digit body;
          fp = drop 1 rest
      in ip \<noteq> [] \<and> take 1 rest = ''.'' \<and> length fp = 3 \<and> list_all is_digit fp \<and>
         \<bar>x - (if neg then - 1 else 1) *
               (of_nat (digits_value ip) + of_nat (digits_value fp) / 1000)\<bar> \<le> 1 / 2000)"

text \<open>
  A computation that delivers a float or raises one of the two arithmetic exceptions,
  and the same for a result that is a value.
\<close>

definition float_or_arith_error :: "pyfloat result \<Rightarrow> bool" where
  "float_or_arith_error r =
     (case r of Inr x \<Rightarrow> True
      | Inl e \<Rightarrow> e = Runtime ZeroDivisionError \<or> e = Runtime OverflowError)"

definition returns_float_or_arith_error :: "pyval result \<Rightarrow> bool" where
  "returns_float_or_arith_error r =
     (case r of Inr (PyFloat x) \<Rightarrow> True
      | Inr _ \<Rightarrow> False
      | Inl e \<Rightarrow> e = Runtime ZeroDivisionError \<or> e = Runtime OverflowError)"

section \<open>An auxiliary notion\<close>

text \<open>
  A list of bisection steps in which each step is one more than the sum of the later
  ones, as the steps of \<open>binade\<close> are.
\<close>

fun halving :: "int list \<Rightarrow> bool" where
  "halving [] = True"
| "halving (d # ds) = (d = sum_list ds + 1 \<and> halving ds)"

section \<open>Facts\<close>

lemma pow2_powr: "pow2 k = 2 powr (of_int k)"
proof (cases "0 \<le> k")
  case True
  then have "(2::real) powr (of_int k) = 2 ^ nat k"
    by (metis of_int_of_nat_eq int_nat_eq of_nat_numeral powr_realpow zero_less_numeral of_int_of_nat_eq)
  with True show ?thesis by (simp add: pow2_def)
next
  case False
  then have "(2::real) powr (of_int k) = 1 / 2 ^ nat (- k)"
    by (simp add: powr_minus_divide powr_realpow [symmetric] )
  with False show ?thesis by (simp add: pow2_def)
qed

lemma pow2_pos: "0 < pow2 k"
  by (simp add: pow2_powr)

lemma pow2_mono: "k \<le> l \<Longrightarrow> pow2 k \<le> pow2 l"
  by (simp add: pow2_powr)

lemma pow2_add: "pow2 (k + l) = pow2 k * pow2 l"
  by (simp add: pow2_powr powr_add)

lemma pow2_53: "pow2 53 = 9007199254740992" and pow2_52: "pow2 52 = 4503599627370496"
  by (simp_all add: pow2_def)

lemma halving_nonneg: "halving ds \<Longrightarrow> 0 \<le> sum_list ds"
  by (induction ds) auto

lemma exp_search_lower: "halving ds \<Longrightarrow> lo \<le> exp_search ds lo m"
proof (induction ds arbitrary: lo)
  case Nil
  then show ?case by simp
next
  case (Cons d ds)
  then have "0 \<le> sum_list ds" by (simp add: halving_nonneg)
  with Cons show ?case by (auto intro: order_trans [of lo "lo + d"])
qed

lemma exp_search_upper: "halving ds \<Longrightarrow> exp_search ds lo m \<le> lo + sum_list ds"
proof (induction ds arbitrary: lo)
  case Nil
  then show ?case by simp
next
  case (Cons d ds)
  from Cons.prems have h: "halving ds" and d: "d = sum_list ds + 1" by simp_all
  from h have nn: "0 \<le> sum_list ds" by (rule halving_nonneg)
  show ?case
  proof (cases "pow2 (lo + d) \<le> m")
    case True
    with Cons.IH [OF h, of "lo + d"] show ?thesis by simp
  next
    case False
    with Cons.IH [OF h, of lo] d nn show ?thesis by simp
  qed
qed

lemma exp_search_below: "halving ds \<Longrightarrow> pow2 lo \<le> m \<Longrightarrow> pow2 (exp_search ds lo m) \<le> m"
  by (induction ds arbitrary: lo) auto

lemma exp_search_above:
  "halving ds \<Longrightarrow> m < pow2 (lo + sum_list ds + 1) \<Longrightarrow> m < pow2 (exp_search ds lo m + 1)"
proof (induction ds arbitrary: lo)
  case Nil
  then show ?case by simp
next
  case (Cons d ds)
  from Cons.prems have h: "halving ds" and d: "d = sum_list ds + 1" by simp_all
  show ?case
  proof (cases "pow2 (lo + d) \<le> m")
    case True
    from Cons.prems(2) have "m < pow2 (lo + d + sum_list ds + 1)"
      by (simp add: add.assoc add.commute add.left_commute)
    from Cons.IH [OF h this] True show ?thesis by simp
  next
    case False
    then have "m < pow2 (lo + sum_list ds + 1)" using d by (simp add: add.assoc)
    from Cons.IH [OF h this] False show ?thesis by simp
  qed
qed

lemma exp_search_saturated:
  "halving ds \<Longrightarrow> pow2 (lo + sum_list ds) \<le> m \<Longrightarrow> exp_search ds lo m = lo + sum_list ds"
proof (induction ds arbitrary: lo)
  case Nil
  then show ?case by simp
next
  case (Cons d ds)
  from Cons.prems have h: "halving ds" and d: "d = sum_list ds + 1" by simp_all
  from h have nn: "0 \<le> sum_list ds" by (rule halving_nonneg)
  have "pow2 (lo + d) \<le> pow2 (lo + sum_list (d # ds))"
    using nn by (intro pow2_mono) simp
  with Cons.prems(2) have t: "pow2 (lo + d) \<le> m" by linarith
  from Cons.prems(2) have "pow2 (lo + d + sum_list ds) \<le> m" by (simp add: add.assoc)
  from Cons.IH [OF h this] t show ?case by (simp add: add.assoc)
qed

lemma exp_search_mono:
  "halving ds \<Longrightarrow> m1 \<le> m2 \<Longrightarrow> exp_search ds lo m1 \<le> exp_search ds lo m2"
proof (induction ds arbitrary: lo)
  case Nil
  then show ?case by simp
next
  case (Cons d ds)
  from Cons.prems have h: "halving ds" and d: "d = sum_list ds + 1" by simp_all
  show ?case
  proof (cases "pow2 (lo + d) \<le> m1")
    case True
    with Cons.prems(2) have "pow2 (lo + d) \<le> m2" by linarith
    with True Cons.IH [OF h Cons.prems(2), of "lo + d"] show ?thesis by simp
  next
    case False
    show ?thesis
    proof (cases "pow2 (lo + d) \<le> m2")
      case True
      have "exp_search ds lo m1 \<le> lo + sum_list ds" using h by (rule exp_search_upper)
      also have "\<dots> \<le> lo + d" using d by simp
      also have "\<dots> \<le> exp_search ds (lo + d) m2" using h by (rule exp_search_lower)
      finally show ?thesis using True False by simp
    next
      case F2: False
      with False Cons.IH [OF h Cons.prems(2), of lo] show ?thesis by simp
    qed
  qed
qed

lemma halving_steps: "halving [2048, 1024, 512, 256, 128, 64, 32, 16, 8, 4, 2, 1]"
  by simp

lemma binade_mono: "m1 \<le> m2 \<Longrightarrow> binade m1 \<le> binade m2"
  unfolding binade_def by (rule exp_search_mono [OF halving_steps])

lemma binade_lower: "- 1075 \<le> binade m"
  unfolding binade_def by (rule exp_search_lower [OF halving_steps])

lemma binade_upper: "binade m \<le> 3020"
  unfolding binade_def using exp_search_upper [OF halving_steps, of "- 1075" m] by simp

lemma binade_below: "pow2 (- 1075) \<le> m \<Longrightarrow> pow2 (binade m) \<le> m"
  unfolding binade_def by (rule exp_search_below [OF halving_steps])

lemma binade_above: "m < pow2 3021 \<Longrightarrow> m < pow2 (binade m + 1)"
  unfolding binade_def using exp_search_above [OF halving_steps, of m "- 1075"] by simp

lemma binade_saturated: "pow2 3020 \<le> m \<Longrightarrow> binade m = 3020"
  unfolding binade_def using exp_search_saturated [OF halving_steps, of "- 1075" m] by simp

lemma exp_search_tiny: "halving ds \<Longrightarrow> m < pow2 lo \<Longrightarrow> exp_search ds lo m = lo"
proof (induction ds arbitrary: lo)
  case Nil
  then show ?case by simp
next
  case (Cons d ds)
  from Cons.prems have h: "halving ds" and d: "d = sum_list ds + 1" by simp_all
  from h have "0 \<le> sum_list ds" by (rule halving_nonneg)
  with d have "pow2 lo \<le> pow2 (lo + d)" by (intro pow2_mono) simp
  with Cons.prems(2) have "\<not> pow2 (lo + d) \<le> m" by linarith
  with Cons.IH [OF h Cons.prems(2)] show ?case by simp
qed

lemma binade_tiny: "m < pow2 (- 1075) \<Longrightarrow> binade m = - 1075"
  unfolding binade_def by (rule exp_search_tiny [OF halving_steps])

subsection \<open>The spacing\<close>

lemma ulp_pos: "0 < ulp m"
  by (simp add: ulp_def pow2_pos)

lemma ulp_mono: "m1 \<le> m2 \<Longrightarrow> ulp m1 \<le> ulp m2"
  unfolding ulp_def using binade_mono [of m1 m2] by (intro pow2_mono) simp

text \<open>The exponent of the binade the spacing belongs to.\<close>

lemma normal_below:
  assumes "- 1022 < max (binade m) (- 1022)"
  shows "pow2 (max (binade m) (- 1022)) \<le> m"
proof -
  from assms have b: "- 1022 < binade m" by simp
  have "\<not> m < pow2 (- 1075)"
  proof
    assume "m < pow2 (- 1075)"
    then have "binade m = - 1075" by (rule binade_tiny)
    with b show False by simp
  qed
  then have "pow2 (binade m) \<le> m" by (intro binade_below) simp
  with b show ?thesis by (simp add: max_def)
qed

lemma binade_top:
  assumes "m < pow2 3021"
  shows "m < pow2 (max (binade m) (- 1022) + 1)"
proof -
  from assms have "m < pow2 (binade m + 1)" by (rule binade_above)
  also have "\<dots> \<le> pow2 (max (binade m) (- 1022) + 1)" by (intro pow2_mono) simp
  finally show ?thesis .
qed

subsection \<open>Rounding to an integer\<close>

lemma round_half_even_of_int: "round_half_even (of_int k) = k"
  by (simp add: round_half_even_def)

lemma round_half_even_mono: "x \<le> y \<Longrightarrow> round_half_even x \<le> round_half_even y"
proof -
  assume xy: "x \<le> y"
  then have f: "\<lfloor>x\<rfloor> \<le> \<lfloor>y\<rfloor>" by (rule floor_mono)
  have rx: "round_half_even x \<le> \<lfloor>x\<rfloor> + 1" and ry: "\<lfloor>y\<rfloor> \<le> round_half_even y"
    by (simp_all add: round_half_even_def Let_def)
  show ?thesis
  proof (cases "\<lfloor>x\<rfloor> = \<lfloor>y\<rfloor>")
    case True
    with xy show ?thesis by (auto simp: round_half_even_def Let_def)
  next
    case False
    with f have "\<lfloor>x\<rfloor> + 1 \<le> \<lfloor>y\<rfloor>" by simp
    with rx ry show ?thesis by linarith
  qed
qed

lemma round_half_even_near: "\<bar>of_int (round_half_even y) - y\<bar> \<le> 1 / 2"
proof -
  have "of_int \<lfloor>y\<rfloor> \<le> y" "y < of_int \<lfloor>y\<rfloor> + 1" by linarith+
  then show ?thesis
    unfolding round_half_even_def Let_def by (simp add: abs_le_iff)
qed

lemma round_half_even_nonneg: "0 \<le> y \<Longrightarrow> 0 \<le> round_half_even y"
  using round_half_even_mono [of 0 y] round_half_even_of_int [of 0] by simp

subsection \<open>Rounding a magnitude\<close>

lemma round_mag_nonneg: "0 \<le> m \<Longrightarrow> 0 \<le> round_mag m"
  unfolding round_mag_def using ulp_pos [of m] round_half_even_nonneg [of "m / ulp m"]
  by simp

lemma round_mag_upper:
  assumes "m < pow2 (max (binade m) (- 1022) + 1)"
  shows "round_mag m \<le> pow2 (max (binade m) (- 1022) + 1)"
proof -
  let ?e = "max (binade m) (- 1022)"
  have split: "pow2 (?e + 1) = pow2 53 * ulp m"
    unfolding ulp_def using pow2_add [of 53 "?e - 52"] by (simp add: add.commute)
  from assms have "m / ulp m \<le> pow2 53"
    using ulp_pos [of m] by (simp add: split pos_divide_le_eq)
  then have "m / ulp m \<le> of_int 9007199254740992" by (simp add: pow2_53)
  from round_half_even_mono [OF this]
  have "round_half_even (m / ulp m) \<le> 9007199254740992"
    by (simp only: round_half_even_of_int)
  then have "(of_int (round_half_even (m / ulp m)) :: real) \<le> pow2 53"
    by (simp add: pow2_53)
  then show ?thesis
    unfolding round_mag_def split using ulp_pos [of m] by simp
qed

lemma round_mag_lower:
  assumes "pow2 (max (binade m) (- 1022)) \<le> m"
  shows "pow2 (max (binade m) (- 1022)) \<le> round_mag m"
proof -
  let ?e = "max (binade m) (- 1022)"
  have split: "pow2 ?e = pow2 52 * ulp m"
    unfolding ulp_def using pow2_add [of 52 "?e - 52"] by simp
  from assms have "pow2 52 \<le> m / ulp m"
    using ulp_pos [of m] by (simp add: split pos_le_divide_eq)
  then have "of_int 4503599627370496 \<le> m / ulp m" by (simp add: pow2_52)
  from round_half_even_mono [OF this]
  have "4503599627370496 \<le> round_half_even (m / ulp m)"
    by (simp only: round_half_even_of_int)
  then have "pow2 52 \<le> (of_int (round_half_even (m / ulp m)) :: real)"
    by (simp add: pow2_52)
  then show ?thesis
    unfolding round_mag_def split using ulp_pos [of m] by simp
qed

lemma round_mag_mono:
  assumes "m1 \<le> m2"
  shows "round_mag m1 \<le> round_mag m2"
proof -
  let ?e1 = "max (binade m1) (- 1022)" and ?e2 = "max (binade m2) (- 1022)"
  from assms have e: "?e1 \<le> ?e2" using binade_mono [of m1 m2] by simp
  show ?thesis
  proof (cases "?e1 = ?e2")
    case True
    then have u: "ulp m1 = ulp m2" by (simp add: ulp_def)
    from assms have "m1 / ulp m2 \<le> m2 / ulp m2"
      using ulp_pos [of m2] by (simp add: divide_right_mono)
    from round_half_even_mono [OF this] show ?thesis
      unfolding round_mag_def u using ulp_pos [of m2] by simp
  next
    case False
    with e have lt: "?e1 < ?e2" by linarith
    then have "- 1022 < ?e2" by linarith
    then have "pow2 ?e2 \<le> m2" by (rule normal_below)
    then have low: "pow2 ?e2 \<le> round_mag m2" by (rule round_mag_lower)
    have "m1 < pow2 3021"
    proof (rule ccontr)
      assume "\<not> m1 < pow2 3021"
      then have "pow2 3020 \<le> m1" using pow2_mono [of 3020 3021] by linarith
      then have "binade m1 = 3020" by (rule binade_saturated)
      with lt binade_upper [of m2] show False by simp
    qed
    then have "m1 < pow2 (?e1 + 1)" by (rule binade_top)
    then have "round_mag m1 \<le> pow2 (?e1 + 1)" by (rule round_mag_upper)
    also have "\<dots> \<le> pow2 ?e2" using lt by (intro pow2_mono) linarith
    finally show ?thesis using low by linarith
  qed
qed

lemmas float_eval =
  round_mag_def ulp_def binade_def pow2_def round_half_even_def overflows_def rounded_def
  float_lit_def int_to_float_def py_mul_def py_add_def py_truediv_def py_pow2_def
  as_pyval_def Let_def

lemmas construction_defs =
  new_Running_def new_SportsWalking_def new_Swimming_def new_Training_def Training_init_def
  verify_action_def verify_duration_def verify_weight_def verify_height_def
  verify_length_pool_def verify_count_pool_def

lemmas constant_defs =
  M_IN_KM_def MIN_IN_H_def Running_CALORIES_MEAN_SPEED_MULTIPLIER_def
  Running_CALORIES_MEAN_SPEED_SHIFT_def SportsWalking_CALORIES_WEIGHT_MULTIPLIER_def
  SportsWalking_CALORIES_SPEED_HEIGHT_MULTIPLIER_def SportsWalking_KMH_IN_MSEC_def
  SportsWalking_CM_IN_M_def Swimming_CALORIES_WEIGHT_MULTIPLIER_def
  Swimming_CALORIES_MEAN_SPEED_SHIFT_def

lemma read_package_RUN: "read_package ''RUN'' [a, d, w] = new_Running a d w"
  by (simp add: read_package_def dict_for_classes_def)

lemma read_package_SWM: "read_package ''SWM'' [a, d, w, l, c] = new_Swimming a d w l c"
  by (simp add: read_package_def dict_for_classes_def)

lemma read_package_WLK: "read_package ''WLK'' [a, d, w, h] = new_SportsWalking a d w h"
  by (simp add: read_package_def dict_for_classes_def)

subsection \<open>Constants and literals\<close>

lemma int_to_float_M_IN_KM: "int_to_float M_IN_KM = Inr (Finite False 1000)"
  by (simp add: M_IN_KM_def float_eval)

lemma int_to_float_MIN_IN_H: "int_to_float MIN_IN_H = Inr (Finite False 60)"
  by (simp add: MIN_IN_H_def float_eval)

lemma int_to_float_CM_IN_M: "int_to_float SportsWalking_CM_IN_M = Inr (Finite False 100)"
  by (simp add: SportsWalking_CM_IN_M_def float_eval)

lemma int_to_float_18:
  "int_to_float Running_CALORIES_MEAN_SPEED_MULTIPLIER = Inr (Finite False 18)"
  by (simp add: Running_CALORIES_MEAN_SPEED_MULTIPLIER_def float_eval)

lemma int_to_float_2:
  "int_to_float Swimming_CALORIES_WEIGHT_MULTIPLIER = Inr (Finite False 2)"
  by (simp add: Swimming_CALORIES_WEIGHT_MULTIPLIER_def float_eval)

lemma float_lit_0_65: "float_lit 0.65 = Finite False (5854679515581645 / 9007199254740992)"
  by (simp add: float_eval)

lemma float_lit_1_38: "float_lit 1.38 = Finite False (1553741871442821 / 1125899906842624)"
  by (simp add: float_eval)

lemma float_lit_0: "float_lit 0 = Finite False 0"
  by (simp add: float_eval)

lemma float_lit_1: "float_lit 1 = Finite False 1"
  by (simp add: float_eval)

lemma float_lit_25: "float_lit 25 = Finite False 25"
  by (simp add: float_eval)

lemma float_lit_75: "float_lit 75 = Finite False 75"
  by (simp add: float_eval)

lemma float_lit_80: "float_lit 80 = Finite False 80"
  by (simp add: float_eval)

lemma float_lit_180: "float_lit 180 = Finite False 180"
  by (simp add: float_eval)

lemma float_lit_336: "float_lit 336 = Finite False 336"
  by (simp add: float_eval)

lemma float_lit_9_75: "float_lit 9.75 = Finite False 9.75"
  by (simp add: float_eval)

lemma float_lit_797_805: "float_lit 797.805 = Finite False (7017566993582653 / 8796093022208)"
  by (simp add: float_eval)

lemma float_lit_0_9935999999999999:
  "float_lit 0.9935999999999999 = Finite False (8949553179510649 / 9007199254740992)"
  by (simp add: float_eval)

lemma float_lit_0_9936:
  "float_lit 0.9936 = Finite False (4474776589755325 / 4503599627370496)"
  by (simp add: float_eval)

lemmas float_lits =
  float_lit_0 float_lit_1 float_lit_25 float_lit_75 float_lit_80 float_lit_180 float_lit_336
  float_lit_9_75 float_lit_797_805 float_lit_0_9935999999999999 float_lit_0_9936

subsection \<open>The sample packages\<close>

lemma running_sample_mean_speed:
  "Training_get_mean_speed (Running \<lparr>action = 15000, duration = Finite False 1, weight = Finite False 75\<rparr>)
     = Inr (Finite False 9.75)"
  by (simp add: Training_get_mean_speed_def int_to_float_M_IN_KM float_lit_0_65)
     (simp add: float_eval)

text \<open>
  C1 (as amended). The package \<^verbatim>\<open>('RUN', [15000, 1.0, 75.0])\<close> constructs a Running instance
  whose distance is the float 9.75 and whose mean speed is the float 9.75, both exact;
  its spent calories are the float 797.805, the float nearest to the value 797.805 of
  the specification's formula at these arguments.
\<close>

theorem running_sample:
  "read_package ''RUN'' [PyInt 15000, PyFloat (float_lit 1), PyFloat (float_lit 75)]
     = Inr (Running \<lparr>action = 15000, duration = float_lit 1, weight = float_lit 75\<rparr>)
   \<and> get_distance (Running \<lparr>action = 15000, duration = float_lit 1, weight = float_lit 75\<rparr>)
       = Inr (float_lit 9.75)
   \<and> get_mean_speed (Running \<lparr>action = 15000, duration = float_lit 1, weight = float_lit 75\<rparr>)
       = Inr (float_lit 9.75)
   \<and> get_spent_calories (Running \<lparr>action = 15000, duration = float_lit 1, weight = float_lit 75\<rparr>)
       = Inr (PyFloat (float_lit 797.805))
   \<and> float_value (float_lit 9.75) = 9.75
   \<and> \<bar>float_value (float_lit 797.805) - 797.805\<bar> \<le> 1 / 10 ^ 13
   \<and> spec_running_calories 9.75 75 1 = 797.805"
proof -
  let ?t = "Running \<lparr>action = 15000, duration = Finite False 1, weight = Finite False 75\<rparr>"
  have "read_package ''RUN'' [PyInt 15000, PyFloat (Finite False 1), PyFloat (Finite False 75)]
          = Inr ?t"
    by (simp add: read_package_RUN construction_defs)
  moreover have "get_distance ?t = Inr (Finite False 9.75)"
    by (simp add: get_distance_def int_to_float_M_IN_KM float_lit_0_65) (simp add: float_eval)
  moreover have "get_mean_speed ?t = Inr (Finite False 9.75)"
    by (simp add: running_sample_mean_speed)
  moreover have "get_spent_calories ?t
                   = Inr (PyFloat (Finite False (7017566993582653 / 8796093022208)))"
    by (simp add: running_sample_mean_speed int_to_float_M_IN_KM int_to_float_MIN_IN_H
          int_to_float_18 Running_CALORIES_MEAN_SPEED_SHIFT_def)
       (simp add: float_eval)
  moreover have "spec_running_calories 9.75 75 1 = 797.805"
    by (simp add: spec_running_calories_def)
  ultimately show ?thesis
    unfolding float_lits by (simp add: float_value_def)
qed

text \<open>
  C1 as stated fails: for that package the spent calories are not within 0.1 of 698.46.
\<close>

theorem running_sample_not_698:
  "read_package ''RUN'' [PyInt 15000, PyFloat (float_lit 1), PyFloat (float_lit 75)]
     = Inr (Running \<lparr>action = 15000, duration = float_lit 1, weight = float_lit 75\<rparr>)
   \<and> \<not> calories_within 0.1 698.46
         (get_spent_calories (Running \<lparr>action = 15000, duration = float_lit 1, weight = float_lit 75\<rparr>))"
proof -
  let ?t = "Running \<lparr>action = 15000, duration = Finite False 1, weight = Finite False 75\<rparr>"
  have "read_package ''RUN'' [PyInt 15000, PyFloat (Finite False 1), PyFloat (Finite False 75)]
          = Inr ?t"
    by (simp add: read_package_RUN construction_defs)
  moreover have "get_spent_calories ?t
                   = Inr (PyFloat (Finite False (7017566993582653 / 8796093022208)))"
    by (simp add: running_sample_mean_speed int_to_float_M_IN_KM int_to_float_MIN_IN_H
          int_to_float_18 Running_CALORIES_MEAN_SPEED_SHIFT_def)
       (simp add: float_eval)
  ultimately show ?thesis
    unfolding float_lits by (simp add: calories_within_def)
qed

lemma swimming_sample_mean_speed:
  "get_mean_speed (Swimming \<lparr>action = 720, duration = Finite False 1, weight = Finite False 80\<rparr>
                     (Finite False 25) 40)
     = Inr (Finite False 1)"
  by (simp add: int_to_float_M_IN_KM) (simp add: float_eval)

text \<open>
  C2 (as amended). The package \<^verbatim>\<open>('SWM', [720, 1.0, 80.0, 25.0, 40])\<close> constructs a Swimming
  instance whose distance is the float 0.9935999999999999 (720 strokes of 1.38 m, in
  float arithmetic; it prints as 0.994), whose mean speed is the float 1.0 and whose
  spent calories are the float 336.0.
\<close>

theorem swimming_sample:
  "read_package ''SWM'' [PyInt 720, PyFloat (float_lit 1), PyFloat (float_lit 80),
                         PyFloat (float_lit 25), PyInt 40]
     = Inr (Swimming \<lparr>action = 720, duration = float_lit 1, weight = float_lit 80\<rparr> (float_lit 25) 40)
   \<and> get_distance (Swimming \<lparr>action = 720, duration = float_lit 1, weight = float_lit 80\<rparr>
                     (float_lit 25) 40)
       = Inr (float_lit 0.9935999999999999)
   \<and> float_value (float_lit 0.9935999999999999) = 8949553179510649 / 2 ^ 53
   \<and> format_3f (float_lit 0.9935999999999999) = ''0.994''
   \<and> get_mean_speed (Swimming \<lparr>action = 720, duration = float_lit 1, weight = float_lit 80\<rparr>
                       (float_lit 25) 40)
       = Inr (float_lit 1)
   \<and> get_spent_calories (Swimming \<lparr>action = 720, duration = float_lit 1, weight = float_lit 80\<rparr>
                            (float_lit 25) 40)
       = Inr (PyFloat (float_lit 336))"
proof -
  let ?t = "Swimming \<lparr>action = 720, duration = Finite False 1, weight = Finite False 80\<rparr>
              (Finite False 25) 40"
  have "read_package ''SWM'' [PyInt 720, PyFloat (Finite False 1), PyFloat (Finite False 80),
                              PyFloat (Finite False 25), PyInt 40] = Inr ?t"
    by (simp add: read_package_SWM construction_defs)
  moreover have "get_distance ?t = Inr (Finite False (8949553179510649 / 9007199254740992))"
    by (simp add: get_distance_def int_to_float_M_IN_KM float_lit_1_38) (simp add: float_eval)
  moreover have "format_3f (Finite False (8949553179510649 / 9007199254740992)) = ''0.994''"
    by (simp add: fixed_3_def round_half_even_def nat_digits.simps digit_char_def)
  moreover have "get_spent_calories ?t = Inr (PyFloat (Finite False 336))"
    by (simp add: swimming_sample_mean_speed int_to_float_2
          Swimming_CALORIES_MEAN_SPEED_SHIFT_def del: get_mean_speed.simps)
       (simp add: float_eval)
  ultimately show ?thesis
    unfolding float_lits by (simp add: float_value_def swimming_sample_mean_speed
        del: get_mean_speed.simps)
qed

text \<open>
  C2 as stated fails: the distance of that instance is not the float 1.0.
\<close>

theorem swimming_sample_distance_not_1:
  "read_package ''SWM'' [PyInt 720, PyFloat (float_lit 1), PyFloat (float_lit 80),
                         PyFloat (float_lit 25), PyInt 40]
     = Inr (Swimming \<lparr>action = 720, duration = float_lit 1, weight = float_lit 80\<rparr> (float_lit 25) 40)
   \<and> get_distance (Swimming \<lparr>action = 720, duration = float_lit 1, weight = float_lit 80\<rparr>
                     (float_lit 25) 40)
       \<noteq> Inr (float_lit 1)"
proof -
  let ?t = "Swimming \<lparr>action = 720, duration = Finite False 1, weight = Finite False 80\<rparr>
              (Finite False 25) 40"
  have "read_package ''SWM'' [PyInt 720, PyFloat (Finite False 1), PyFloat (Finite False 80),
                              PyFloat (Finite False 25), PyInt 40] = Inr ?t"
    by (simp add: read_package_SWM construction_defs)
  moreover have "get_distance ?t = Inr (Finite False (8949553179510649 / 9007199254740992))"
    by (simp add: get_distance_def int_to_float_M_IN_KM float_lit_1_38) (simp add: float_eval)
  ultimately show ?thesis
    unfolding float_lits by simp
qed

subsection \<open>The class of a constructed instance\<close>

lemma new_Running_class: "new_Running a d w = Inr t \<Longrightarrow> class_name t = ''Running''"
  by (auto simp: new_Running_def split: sum.splits)

lemma new_Swimming_class: "new_Swimming a d w l c = Inr t \<Longrightarrow> class_name t = ''Swimming''"
  by (auto simp: new_Swimming_def split: sum.splits)

lemma new_SportsWalking_class:
  "new_SportsWalking a d w h = Inr t \<Longrightarrow> class_name t = ''SportsWalking''"
  by (auto simp: new_SportsWalking_def split: sum.splits)

lemma dict_for_classes_None:
  "workout_type \<notin> {''RUN'', ''SWM'', ''WLK''} \<Longrightarrow> dict_for_classes workout_type = None"
  by (simp add: dict_for_classes_def)

lemma Running_call_class: "Running_call data = Inr t \<Longrightarrow> class_name t = ''Running''"
  by (cases data rule: Running_call.cases) (simp_all add: new_Running_class)

lemma Swimming_call_class: "Swimming_call data = Inr t \<Longrightarrow> class_name t = ''Swimming''"
  by (cases data rule: Swimming_call.cases) (simp_all add: new_Swimming_class)

lemma SportsWalking_call_class:
  "SportsWalking_call data = Inr t \<Longrightarrow> class_name t = ''SportsWalking''"
  by (cases data rule: SportsWalking_call.cases) (simp_all add: new_SportsWalking_class)

text \<open>
  C6. \<open>read_package\<close> raises KeyError for every code other than RUN, SWM and WLK;
  for each of the three codes, with the parameters of the class's signature, its result
  is the result of constructing that class from them, an instance of that class or the
  validator's exception unchanged; and whatever it returns for a code is an instance of
  the code's class.
\<close>

theorem read_package_dispatch:
  "(workout_type \<notin> {''RUN'', ''SWM'', ''WLK''}
      \<longrightarrow> read_package workout_type data = Inl (Raised KeyError msg_workout_type))
   \<and> read_package ''RUN'' [a, d, w] = new_Running a d w
   \<and> read_package ''SWM'' [a, d, w, l, c] = new_Swimming a d w l c
   \<and> read_package ''WLK'' [a, d, w, h] = new_SportsWalking a d w h
   \<and> (read_package ''RUN'' data = Inr t \<longrightarrow> class_name t = ''Running'')
   \<and> (read_package ''SWM'' data = Inr t \<longrightarrow> class_name t = ''Swimming'')
   \<and> (read_package ''WLK'' data = Inr t \<longrightarrow> class_name t = ''SportsWalking'')"
proof -
  have unknown: "workout_type \<notin> {''RUN'', ''SWM'', ''WLK''}
      \<longrightarrow> read_package workout_type data = Inl (Raised KeyError msg_workout_type)"
    by (simp add: read_package_def dict_for_classes_None)
  have "read_package ''RUN'' data = Running_call data"
    "read_package ''SWM'' data = Swimming_call data"
    "read_package ''WLK'' data = SportsWalking_call data"
    by (simp_all add: read_package_def dict_for_classes_def)
  then have classes:
    "read_package ''RUN'' data = Inr t \<longrightarrow> class_name t = ''Running''"
    "read_package ''SWM'' data = Inr t \<longrightarrow> class_name t = ''Swimming''"
    "read_package ''WLK'' data = Inr t \<longrightarrow> class_name t = ''SportsWalking''"
    by (simp_all add: Running_call_class Swimming_call_class SportsWalking_call_class)
  from unknown classes show ?thesis
    by (simp add: read_package_RUN read_package_SWM read_package_WLK)
qed

text \<open>
  C6, at concrete packages: an unknown code, a RUN package with an integer duration and
  a valid RUN package.
\<close>

theorem read_package_dispatch_witness:
  "read_package ''BIKE'' [PyInt 100, PyFloat (Finite False 1), PyFloat (Finite False 70)]
     = Inl (Raised KeyError msg_workout_type)
   \<and> read_package ''RUN'' [PyInt 100, PyInt 1, PyFloat (Finite False 70)]
     = Inl (Raised TypeError msg_duration)
   \<and> read_package ''RUN'' [PyInt 100, PyFloat (Finite False 1), PyFloat (Finite False 70)]
       = Inr (Running \<lparr>action = 100, duration = Finite False 1, weight = Finite False 70\<rparr>)
   \<and> class_name (Running \<lparr>action = 100, duration = Finite False 1, weight = Finite False 70\<rparr>)
       = ''Running''"
  using read_package_dispatch [of "''BIKE''"
      "[PyInt 100, PyFloat (Finite False 1), PyFloat (Finite False 70)]"
      "PyInt 100" "PyInt 1" "PyFloat (Finite False 70)"]
    read_package_dispatch [of "''RUN''"
      "[PyInt 100, PyFloat (Finite False 1), PyFloat (Finite False 70)]"
      "PyInt 100" "PyFloat (Finite False 1)" "PyFloat (Finite False 70)" _ _ _
      "Running \<lparr>action = 100, duration = Finite False 1, weight = Finite False 70\<rparr>"]
  by (simp add: construction_defs)

subsection \<open>Exceptions of the arithmetic\<close>

lemma float_or_arith_error_Inr: "float_or_arith_error (Inr x)"
  by (simp add: float_or_arith_error_def)

lemma float_or_arith_error_int_to_float: "float_or_arith_error (int_to_float n)"
  by (simp add: float_or_arith_error_def int_to_float_def Let_def)

lemma float_or_arith_error_mul:
  "float_or_arith_error a \<Longrightarrow> float_or_arith_error b \<Longrightarrow> float_or_arith_error (py_mul a b)"
  by (auto simp: float_or_arith_error_def py_mul_def split: sum.splits)

lemma float_or_arith_error_add:
  "float_or_arith_error a \<Longrightarrow> float_or_arith_error b \<Longrightarrow> float_or_arith_error (py_add a b)"
  by (auto simp: float_or_arith_error_def py_add_def split: sum.splits)

lemma float_or_arith_error_fdiv: "float_or_arith_error (fdiv x y)"
  by (cases "(x, y)" rule: fdiv.cases) (simp_all add: float_or_arith_error_def)

lemma float_or_arith_error_truediv:
  "float_or_arith_error a \<Longrightarrow> float_or_arith_error b \<Longrightarrow> float_or_arith_error (py_truediv a b)"
  using float_or_arith_error_fdiv
  by (auto simp: py_truediv_def float_or_arith_error_def [of a] float_or_arith_error_def [of b]
      float_or_arith_error_def [of "Inl _"] split: sum.splits)

lemma float_or_arith_error_fpow2: "float_or_arith_error (fpow2 x)"
  by (cases x) (simp_all add: float_or_arith_error_def Let_def)

lemma float_or_arith_error_pow2:
  "float_or_arith_error a \<Longrightarrow> float_or_arith_error (py_pow2 a)"
  using float_or_arith_error_fpow2
  by (auto simp: py_pow2_def float_or_arith_error_def [of a]
      float_or_arith_error_def [of "Inl _"] split: sum.splits)

lemmas float_or_arith_error_intros =
  float_or_arith_error_Inr float_or_arith_error_int_to_float float_or_arith_error_mul
  float_or_arith_error_add float_or_arith_error_truediv float_or_arith_error_pow2

lemma returns_float_as_pyval:
  "float_or_arith_error r \<Longrightarrow> returns_float_or_arith_error (as_pyval r)"
  by (auto simp: float_or_arith_error_def returns_float_or_arith_error_def as_pyval_def
      split: sum.splits)

lemma float_or_arith_error_Training_get_mean_speed:
  "float_or_arith_error (Training_get_mean_speed t)"
  unfolding Training_get_mean_speed_def by (intro float_or_arith_error_intros)

lemma float_or_arith_error_get_mean_speed: "float_or_arith_error (get_mean_speed t)"
proof (cases t)
  case (Swimming a l c)
  show ?thesis unfolding Swimming get_mean_speed.simps by (intro float_or_arith_error_intros)
qed (simp_all add: float_or_arith_error_Training_get_mean_speed)

lemma returns_float_Running: "returns_float_or_arith_error (get_spent_calories (Running a))"
proof (cases "Training_get_mean_speed (Running a)")
  case (Inl e)
  with float_or_arith_error_Training_get_mean_speed [of "Running a"] show ?thesis
    by (simp add: float_or_arith_error_def returns_float_or_arith_error_def)
next
  case (Inr v)
  show ?thesis
    unfolding get_spent_calories.simps Inr sum.case
    by (intro returns_float_as_pyval float_or_arith_error_intros)
qed

lemma returns_float_SportsWalking:
  "returns_float_or_arith_error (get_spent_calories (SportsWalking a h))"
  unfolding get_spent_calories.simps
  by (intro returns_float_as_pyval float_or_arith_error_intros
      float_or_arith_error_Training_get_mean_speed)

lemma returns_float_Swimming:
  "returns_float_or_arith_error (get_spent_calories (Swimming a l c))"
proof (cases "get_mean_speed (Swimming a l c)")
  case (Inl e)
  with float_or_arith_error_get_mean_speed [of "Swimming a l c"] show ?thesis
    by (simp add: float_or_arith_error_def returns_float_or_arith_error_def
        del: get_mean_speed.simps)
next
  case (Inr v)
  show ?thesis
    unfolding get_spent_calories.simps Inr sum.case
    by (intro returns_float_as_pyval float_or_arith_error_intros)
qed

subsection \<open>The base class\<close>

text \<open>
  C4 (as amended). \<open>get_spent_calories\<close> of a plain Training has an empty default body:
  Training can be instantiated, and on such an instance the call returns \<open>None\<close>, no
  number, without raising. Every subclass overrides the method: on a Running,
  SportsWalking or Swimming instance it returns a float or raises ZeroDivisionError or
  OverflowError, never \<open>None\<close>.
\<close>

theorem base_spent_calories:
  "get_spent_calories (Training a) = Inr PyNone
   \<and> new_Training (PyInt 9000) (PyFloat (float_lit 1)) (PyFloat (float_lit 75))
       = Inr (Training \<lparr>action = 9000, duration = float_lit 1, weight = float_lit 75\<rparr>)
   \<and> \<not> returns_float_or_arith_error (get_spent_calories (Training a))
   \<and> returns_float_or_arith_error (get_spent_calories (Running a))
   \<and> returns_float_or_arith_error (get_spent_calories (SportsWalking a h))
   \<and> returns_float_or_arith_error (get_spent_calories (Swimming a l c))"
  using returns_float_Running [of a] returns_float_SportsWalking [of a h]
    returns_float_Swimming [of a l c]
  by (simp add: construction_defs float_lits returns_float_or_arith_error_def
      del: get_spent_calories.simps(2-4))

text \<open>
  C4 as stated fails: a plain Training is constructed from a valid package, and
  \<open>get_spent_calories\<close> on it is a call that returns normally (with \<open>None\<close>).
\<close>

theorem base_spent_calories_returns:
  "new_Training (PyInt 9000) (PyFloat (float_lit 1)) (PyFloat (float_lit 75))
     = Inr (Training \<lparr>action = 9000, duration = float_lit 1, weight = float_lit 75\<rparr>)
   \<and> get_spent_calories (Training \<lparr>action = 9000, duration = float_lit 1, weight = float_lit 75\<rparr>)
       = Inr PyNone"
  by (simp add: construction_defs float_lits)

subsection \<open>Validators\<close>

lemma not_lt_zero_iff: "\<not> float_lt_zero x \<longleftrightarrow> float_ge_zero x \<or> x = NaN"
  by (cases x) auto

lemma verify_action_valid: "int_typed_nonneg v \<Longrightarrow> \<exists>n. verify_action v = Inr n"
  by (auto simp: verify_action_def int_typed_nonneg_def split: pyval.splits)

lemma verify_action_invalid:
  "\<not> int_typed_nonneg v \<Longrightarrow> verify_action v = Inl (Raised TypeError msg_action)"
  by (auto simp: verify_action_def int_typed_nonneg_def split: pyval.splits)

lemma verify_duration_valid: "real_typed_nonneg_or_nan v \<Longrightarrow> \<exists>x. verify_duration v = Inr x"
  by (auto simp: verify_duration_def real_typed_nonneg_or_nan_def not_lt_zero_iff [symmetric]
      split: pyval.splits)

lemma verify_duration_invalid:
  "\<not> real_typed_nonneg_or_nan v \<Longrightarrow> verify_duration v = Inl (Raised TypeError msg_duration)"
  by (auto simp: verify_duration_def real_typed_nonneg_or_nan_def not_lt_zero_iff [symmetric]
      split: pyval.splits)

lemma verify_weight_valid: "real_typed_nonneg_or_nan v \<Longrightarrow> \<exists>x. verify_weight v = Inr x"
  by (auto simp: verify_weight_def real_typed_nonneg_or_nan_def not_lt_zero_iff [symmetric]
      split: pyval.splits)

lemma verify_weight_invalid:
  "\<not> real_typed_nonneg_or_nan v \<Longrightarrow> verify_weight v = Inl (Raised TypeError msg_weight)"
  by (auto simp: verify_weight_def real_typed_nonneg_or_nan_def not_lt_zero_iff [symmetric]
      split: pyval.splits)

lemma msgs_distinct:
  "msg_action \<noteq> msg_duration \<and> msg_action \<noteq> msg_weight \<and> msg_duration \<noteq> msg_weight"
  by (simp add: msg_action_def msg_duration_def msg_weight_def)

text \<open>
  C5 (as amended). An assignment to \<open>action\<close> fails with the TypeError that names the
  step count unless the value is integer-typed and at least 0; an assignment to
  \<open>duration\<close> or to \<open>weight\<close> fails with the TypeError that names that field unless the
  value is float-typed and either at least 0 or a NaN (the validators test \<open>x < 0\<close>, which
  is false of a NaN); an accepted value is stored. The construction of every class runs
  the same three validators in this order and fails with the first error. In particular
  a negative integer and a float are not valid step counts, and an integer and a
  negative float are not valid durations or weights. The three messages differ.
\<close>

theorem validation:
  "(int_typed_nonneg v \<longrightarrow> (\<exists>t'. action_setter v t = Inr t'))
   \<and> (\<not> int_typed_nonneg v \<longrightarrow> action_setter v t = Inl (Raised TypeError msg_action))
   \<and> (real_typed_nonneg_or_nan v \<longrightarrow> (\<exists>t'. duration_setter v t = Inr t'))
   \<and> (\<not> real_typed_nonneg_or_nan v
        \<longrightarrow> duration_setter v t = Inl (Raised TypeError msg_duration))
   \<and> (real_typed_nonneg_or_nan v \<longrightarrow> (\<exists>t'. weight_setter v t = Inr t'))
   \<and> (\<not> real_typed_nonneg_or_nan v \<longrightarrow> weight_setter v t = Inl (Raised TypeError msg_weight))
   \<and> (int_typed_nonneg a \<and> real_typed_nonneg_or_nan d \<and> real_typed_nonneg_or_nan w
        \<longrightarrow> (\<exists>b. Training_init a d w = Inr b))
   \<and> (\<not> int_typed_nonneg a \<longrightarrow> Training_init a d w = Inl (Raised TypeError msg_action))
   \<and> (int_typed_nonneg a \<and> \<not> real_typed_nonneg_or_nan d
        \<longrightarrow> Training_init a d w = Inl (Raised TypeError msg_duration))
   \<and> (int_typed_nonneg a \<and> real_typed_nonneg_or_nan d \<and> \<not> real_typed_nonneg_or_nan w
        \<longrightarrow> Training_init a d w = Inl (Raised TypeError msg_weight))
   \<and> (Training_init a d w = Inl e
        \<longrightarrow> new_Training a d w = Inl e \<and> new_Running a d w = Inl e
            \<and> new_SportsWalking a d w h = Inl e \<and> new_Swimming a d w l c = Inl e)
   \<and> (n < 0 \<longrightarrow> \<not> int_typed_nonneg (PyInt n))
   \<and> \<not> int_typed_nonneg (PyFloat x)
   \<and> \<not> real_typed_nonneg_or_nan (PyInt n)
   \<and> (float_lt_zero x \<longrightarrow> \<not> real_typed_nonneg_or_nan (PyFloat x))
   \<and> real_typed_nonneg_or_nan v = (real_typed_nonneg v \<or> v = PyFloat NaN)
   \<and> msg_action \<noteq> msg_duration \<and> msg_action \<noteq> msg_weight \<and> msg_duration \<noteq> msg_weight"
proof -
  have setters:
    "int_typed_nonneg v \<longrightarrow> (\<exists>t'. action_setter v t = Inr t')"
    "\<not> int_typed_nonneg v \<longrightarrow> action_setter v t = Inl (Raised TypeError msg_action)"
    "real_typed_nonneg_or_nan v \<longrightarrow> (\<exists>t'. duration_setter v t = Inr t')"
    "\<not> real_typed_nonneg_or_nan v \<longrightarrow> duration_setter v t = Inl (Raised TypeError msg_duration)"
    "real_typed_nonneg_or_nan v \<longrightarrow> (\<exists>t'. weight_setter v t = Inr t')"
    "\<not> real_typed_nonneg_or_nan v \<longrightarrow> weight_setter v t = Inl (Raised TypeError msg_weight)"
    using verify_action_valid [of v] verify_action_invalid [of v]
      verify_duration_valid [of v] verify_duration_invalid [of v]
      verify_weight_valid [of v] verify_weight_invalid [of v]
    by (auto simp: action_setter_def duration_setter_def weight_setter_def)
  have init:
    "int_typed_nonneg a \<and> real_typed_nonneg_or_nan d \<and> real_typed_nonneg_or_nan w
        \<longrightarrow> (\<exists>b. Training_init a d w = Inr b)"
    "\<not> int_typed_nonneg a \<longrightarrow> Training_init a d w = Inl (Raised TypeError msg_action)"
    "int_typed_nonneg a \<and> \<not> real_typed_nonneg_or_nan d
        \<longrightarrow> Training_init a d w = Inl (Raised TypeError msg_duration)"
    "int_typed_nonneg a \<and> real_typed_nonneg_or_nan d \<and> \<not> real_typed_nonneg_or_nan w
        \<longrightarrow> Training_init a d w = Inl (Raised TypeError msg_weight)"
    using verify_action_valid [of a] verify_action_invalid [of a]
      verify_duration_valid [of d] verify_duration_invalid [of d]
      verify_weight_valid [of w] verify_weight_invalid [of w]
    by (auto simp: Training_init_def)
  have new:
    "Training_init a d w = Inl e
        \<longrightarrow> new_Training a d w = Inl e \<and> new_Running a d w = Inl e
            \<and> new_SportsWalking a d w h = Inl e \<and> new_Swimming a d w l c = Inl e"
    by (simp add: new_Training_def new_Running_def new_SportsWalking_def new_Swimming_def)
  have kinds:
    "n < 0 \<longrightarrow> \<not> int_typed_nonneg (PyInt n)"
    "\<not> int_typed_nonneg (PyFloat x)"
    "\<not> real_typed_nonneg_or_nan (PyInt n)"
    "float_lt_zero x \<longrightarrow> \<not> real_typed_nonneg_or_nan (PyFloat x)"
    by (simp_all add: int_typed_nonneg_def real_typed_nonneg_or_nan_def
        not_lt_zero_iff [symmetric])
  have nan: "real_typed_nonneg_or_nan v = (real_typed_nonneg v \<or> v = PyFloat NaN)"
    by (cases v) (auto simp: real_typed_nonneg_or_nan_def real_typed_nonneg_def)
  from setters init new kinds nan msgs_distinct show ?thesis by blast
qed

text \<open>
  C5, at concrete values: \<open>-1\<close> and \<open>1.5\<close> assigned to \<open>action\<close>, the integer \<open>1\<close> assigned
  to \<open>duration\<close>, \<open>-70.0\<close> assigned to \<open>weight\<close>, a construction with an integer
  duration, and the valid step count \<open>12\<close>.
\<close>

theorem validation_witness:
  "action_setter (PyInt (- 1)) (Running \<lparr>action = 10, duration = Finite False 1, weight = Finite False 70\<rparr>)
     = Inl (Raised TypeError msg_action)
   \<and> action_setter (PyFloat (Finite False 1.5))
        (Running \<lparr>action = 10, duration = Finite False 1, weight = Finite False 70\<rparr>)
     = Inl (Raised TypeError msg_action)
   \<and> duration_setter (PyInt 1) (Running \<lparr>action = 10, duration = Finite False 1, weight = Finite False 70\<rparr>)
     = Inl (Raised TypeError msg_duration)
   \<and> weight_setter (PyFloat (Finite True 70))
        (Running \<lparr>action = 10, duration = Finite False 1, weight = Finite False 70\<rparr>)
     = Inl (Raised TypeError msg_weight)
   \<and> new_Running (PyInt 10) (PyInt 1) (PyFloat (Finite False 70))
     = Inl (Raised TypeError msg_duration)
   \<and> (\<exists>t'. action_setter (PyInt 12)
              (Running \<lparr>action = 10, duration = Finite False 1, weight = Finite False 70\<rparr>) = Inr t')"
  using validation [of "PyInt (- 1)" "Running \<lparr>action = 10, duration = Finite False 1, weight = Finite False 70\<rparr>"
      "PyInt 10" "PyInt 1" "PyFloat (Finite False 70)"]
    validation [of "PyFloat (Finite False 1.5)" "Running \<lparr>action = 10, duration = Finite False 1, weight = Finite False 70\<rparr>"]
    validation [of "PyInt 1" "Running \<lparr>action = 10, duration = Finite False 1, weight = Finite False 70\<rparr>"]
    validation [of "PyFloat (Finite True 70)" "Running \<lparr>action = 10, duration = Finite False 1, weight = Finite False 70\<rparr>"]
    validation [of "PyInt 12" "Running \<lparr>action = 10, duration = Finite False 1, weight = Finite False 70\<rparr>"]
  by (simp add: int_typed_nonneg_def real_typed_nonneg_or_nan_def)

text \<open>
  C5 as stated fails: a NaN is not at least 0, and the setters of \<open>duration\<close> and
  \<open>weight\<close> and the constructor accept it.
\<close>

theorem validation_accepts_nan:
  "\<not> real_typed_nonneg (PyFloat NaN)
   \<and> duration_setter (PyFloat NaN)
        (Running \<lparr>action = 10, duration = Finite False 1, weight = Finite False 70\<rparr>)
     = Inr (Running \<lparr>action = 10, duration = NaN, weight = Finite False 70\<rparr>)
   \<and> weight_setter (PyFloat NaN)
        (Running \<lparr>action = 10, duration = Finite False 1, weight = Finite False 70\<rparr>)
     = Inr (Running \<lparr>action = 10, duration = Finite False 1, weight = NaN\<rparr>)
   \<and> new_Running (PyInt 10) (PyFloat NaN) (PyFloat NaN)
     = Inr (Running \<lparr>action = 10, duration = NaN, weight = NaN\<rparr>)"
  by (simp add: real_typed_nonneg_def duration_setter_def weight_setter_def construction_defs)

subsection \<open>Digits\<close>

lemma digit_cases:
  "d < 10 \<Longrightarrow> d = 0 \<or> d = 1 \<or> d = 2 \<or> d = 3 \<or> d = 4 \<or> d = 5 \<or> d = 6 \<or> d = 7 \<or> d = 8 \<or> d = (9::nat)"
  by arith

lemma is_digit_digit_char: "is_digit (digit_char d)"
proof -
  have "d mod 10 < 10" by simp
  from digit_cases [OF this] show ?thesis
    unfolding is_digit_def digit_char_def by (elim disjE) simp_all
qed

lemma digit_value_digit_char: "digit_value (digit_char d) = d mod 10"
proof -
  have "d mod 10 < 10" by simp
  from digit_cases [OF this] show ?thesis
    unfolding digit_value_def digit_char_def by (elim disjE) simp_all
qed

lemma not_digit_dot: "\<not> is_digit CHR ''.''"
  by (simp add: is_digit_def)

lemma not_digit_minus: "\<not> is_digit CHR ''-''"
  by (simp add: is_digit_def)

lemma digits_value_snoc: "digits_value (s @ [c]) = 10 * digits_value s + digit_value c"
  by (simp add: digits_value_def)

lemma nat_digits_nonempty: "nat_digits n \<noteq> []"
  by (subst nat_digits.simps) simp

lemma nat_digits_all_digits: "list_all is_digit (nat_digits n)"
proof (induction n rule: nat_digits.induct)
  case (1 n)
  show ?case
    by (subst nat_digits.simps) (use 1 in \<open>simp add: is_digit_digit_char\<close>)
qed

lemma digits_value_nat_digits: "digits_value (nat_digits n) = n"
proof (induction n rule: nat_digits.induct)
  case (1 n)
  show ?case
  proof (cases "n < 10")
    case True
    then show ?thesis
      by (subst nat_digits.simps) (simp add: digits_value_def digit_value_digit_char)
  next
    case False
    with 1 show ?thesis
      by (subst nat_digits.simps) (simp add: digits_value_snoc digit_value_digit_char)
  qed
qed

lemma three_digits_mod:
  "100 * (n div 100 mod 10) + 10 * (n div 10 mod 10) + n mod 10 = n mod (1000::nat)"
  using mod_mult2_eq [of n 10 10] mod_mult2_eq [of n 100 10] by simp

lemma digits_value_three:
  "digits_value [digit_char (n div 100 mod 10), digit_char (n div 10 mod 10), digit_char (n mod 10)]
     = n mod 1000"
proof -
  have "digits_value [digit_char (n div 100 mod 10), digit_char (n div 10 mod 10), digit_char (n mod 10)]
     = 100 * (n div 100 mod 10) + 10 * (n div 10 mod 10) + n mod 10"
    by (simp add: digits_value_def digit_value_digit_char)
  then show ?thesis by (simp only: three_digits_mod)
qed

lemma takeWhile_digits:
  "list_all is_digit ds \<Longrightarrow> takeWhile is_digit (ds @ CHR ''.'' # fp) = ds"
  by (induction ds) (simp_all add: not_digit_dot)

lemma dropWhile_digits:
  "list_all is_digit ds \<Longrightarrow> dropWhile is_digit (ds @ CHR ''.'' # fp) = CHR ''.'' # fp"
  by (induction ds) (simp_all add: not_digit_dot)

subsection \<open>Three decimals\<close>

lemma shows_3_decimals_negative:
  assumes "ip \<noteq> []" and "list_all is_digit ip" and "list_all is_digit fp" and "length fp = 3"
    and "\<bar>x - - 1 * (of_nat (digits_value ip) + of_nat (digits_value fp) / 1000)\<bar> \<le> 1 / 2000"
  shows "shows_3_decimals x (''-'' @ ip @ ''.'' @ fp)"
proof -
  have "takeWhile is_digit (ip @ CHR ''.'' # fp) = ip"
    and "dropWhile is_digit (ip @ CHR ''.'' # fp) = CHR ''.'' # fp"
    using assms(2) by (simp_all only: takeWhile_digits dropWhile_digits)
  with assms show ?thesis
    unfolding shows_3_decimals_def Let_def by simp
qed

lemma shows_3_decimals_positive:
  assumes "ip \<noteq> []" and "list_all is_digit ip" and "list_all is_digit fp" and "length fp = 3"
    and "\<bar>x - 1 * (of_nat (digits_value ip) + of_nat (digits_value fp) / 1000)\<bar> \<le> 1 / 2000"
  shows "shows_3_decimals x (ip @ ''.'' @ fp)"
proof -
  obtain c cs where ip: "ip = c # cs"
    using assms(1) by (cases ip) auto
  with assms(2) have "is_digit c" by simp
  with not_digit_minus have "c \<noteq> CHR ''-''" by auto
  with ip have sign: "take 1 (ip @ ''.'' @ fp) \<noteq> ''-''" by simp
  have "takeWhile is_digit (ip @ CHR ''.'' # fp) = ip"
    and "dropWhile is_digit (ip @ CHR ''.'' # fp) = CHR ''.'' # fp"
    using assms(2) by (simp_all only: takeWhile_digits dropWhile_digits)
  with assms sign show ?thesis
    unfolding shows_3_decimals_def Let_def by simp
qed

lemma abs_diff_negated: "\<bar>m - y\<bar> \<le> c \<Longrightarrow> \<bar>- m - - 1 * y\<bar> \<le> (c::real)"
  by (auto simp: abs_le_iff)

lemma abs_diff_unit: "\<bar>m - y\<bar> \<le> c \<Longrightarrow> \<bar>m - 1 * y\<bar> \<le> (c::real)"
  by simp

lemma fixed_3_parts:
  assumes "0 \<le> m"
  shows "\<exists>ip fp. fixed_3 m = ip @ ''.'' @ fp \<and> ip \<noteq> [] \<and> list_all is_digit ip
           \<and> list_all is_digit fp \<and> length fp = 3
           \<and> \<bar>m - (of_nat (digits_value ip) + of_nat (digits_value fp) / 1000)\<bar> \<le> 1 / 2000"
proof -
  let ?n = "nat (round_half_even (m * 1000))"
  let ?fp = "[digit_char (?n div 100 mod 10), digit_char (?n div 10 mod 10), digit_char (?n mod 10)]"
  let ?ip = "nat_digits (?n div 1000)"
  have "(of_nat (?n div 1000) :: real) + of_nat (?n mod 1000) / 1000
          = of_nat (1000 * (?n div 1000) + ?n mod 1000) / 1000"
    by (simp only: of_nat_add of_nat_mult add_divide_distrib)
  then have "(of_nat (?n div 1000) :: real) + of_nat (?n mod 1000) / 1000 = of_nat ?n / 1000"
    by (simp only: mult_div_mod_eq)
  then have val: "(of_nat (digits_value ?ip) :: real) + of_nat (digits_value ?fp) / 1000
                   = of_nat ?n / 1000"
    by (simp only: digits_value_nat_digits digits_value_three)
  from assms have "0 \<le> round_half_even (m * 1000)"
    by (intro round_half_even_nonneg) simp
  then have eq: "(of_nat ?n :: real) = of_int (round_half_even (m * 1000))" by simp
  have "\<bar>of_int (round_half_even (m * 1000)) - m * 1000\<bar> \<le> 1 / 2"
    by (rule round_half_even_near)
  then have "\<bar>of_nat ?n - m * 1000\<bar> \<le> 1 / 2" by (simp only: eq)
  then have "\<bar>m - of_nat ?n / 1000\<bar> \<le> 1 / 2000" by linarith
  then have near: "\<bar>m - (of_nat (digits_value ?ip) + of_nat (digits_value ?fp) / 1000)\<bar>
                     \<le> 1 / 2000"
    by (simp only: val)
  have "fixed_3 m = ?ip @ ''.'' @ ?fp" by (simp only: fixed_3_def Let_def)
  moreover have "list_all is_digit ?fp" "length ?fp = 3"
    by (simp_all add: is_digit_digit_char)
  ultimately show ?thesis
    using nat_digits_nonempty nat_digits_all_digits near by blast
qed

lemma shows_3_decimals_format_3f:
  assumes "finite_float x"
  shows "shows_3_decimals (float_value x) (format_3f x)"
proof -
  from assms obtain s m where x: "x = Finite s m" and m: "0 \<le> m"
    by (cases x) (simp_all add: finite_float_def)
  from fixed_3_parts [OF m] obtain ip fp where
    f: "fixed_3 m = ip @ ''.'' @ fp" and p: "ip \<noteq> []" "list_all is_digit ip"
      "list_all is_digit fp" "length fp = 3"
    and near: "\<bar>m - (of_nat (digits_value ip) + of_nat (digits_value fp) / 1000)\<bar> \<le> 1 / 2000"
    by blast
  show ?thesis
  proof (cases s)
    case True
    from near have "\<bar>- m - - 1 * (of_nat (digits_value ip) + of_nat (digits_value fp) / 1000)\<bar>
                      \<le> 1 / 2000"
      by (rule abs_diff_negated)
    from shows_3_decimals_negative [OF p this] show ?thesis
      using True by (simp add: x f float_value_def)
  next
    case False
    from near have "\<bar>m - 1 * (of_nat (digits_value ip) + of_nat (digits_value fp) / 1000)\<bar>
                      \<le> 1 / 2000"
      by (rule abs_diff_unit)
    from shows_3_decimals_positive [OF p this] show ?thesis
      using False by (simp add: x f float_value_def)
  qed
qed

subsection \<open>The report line\<close>

text \<open>
  C3 (as amended). For every InfoMessage whose four numeric fields are floats,
  \<open>get_message\<close> returns one line: the template's own text (in Russian: training type,
  duration in hours, distance in km, mean speed in km/h, calories spent), with
  \<open>training_type\<close> as it is and each numeric field in the format \<open>.3f\<close>: a finite float
  to three decimals, an infinity as \<open>inf\<close> or \<open>-inf\<close>, a NaN as \<open>nan\<close>.
\<close>

theorem get_message_line:
  "get_message \<lparr>training_type = n, InfoMessage.duration = PyFloat d, distance = PyFloat s,
                 speed = PyFloat v, calories = PyFloat c\<rparr>
     = Inr (text_training_type @ n @ text_duration @ format_3f d @ text_distance @ format_3f s @
            text_speed @ format_3f v @ text_calories @ format_3f c @ text_end)
   \<and> (finite_float x \<longrightarrow> shows_3_decimals (float_value x) (format_3f x))
   \<and> format_3f (Infinity False) = ''inf'' \<and> format_3f (Infinity True) = ''-inf''
   \<and> format_3f NaN = ''nan''"
  by (simp add: get_message_def shows_3_decimals_format_3f)

text \<open>
  C3, at the report of the Swimming sample.
\<close>

theorem get_message_line_witness:
  "get_message \<lparr>training_type = ''Swimming'', InfoMessage.duration = PyFloat (float_lit 1),
                 distance = PyFloat (float_lit 0.9935999999999999), speed = PyFloat (float_lit 1),
                 calories = PyFloat (float_lit 336)\<rparr>
     = Inr (text_training_type @ ''Swimming'' @ text_duration @ ''1.000'' @ text_distance @
            ''0.994'' @ text_speed @ ''1.000'' @ text_calories @ ''336.000'' @ text_end)
   \<and> shows_3_decimals (8949553179510649 / 2 ^ 53) ''0.994''"
proof -
  have f: "format_3f (Finite False 1) = ''1.000''"
    "format_3f (Finite False (8949553179510649 / 9007199254740992)) = ''0.994''"
    "format_3f (Finite False 336) = ''336.000''"
    by (simp_all add: fixed_3_def round_half_even_def nat_digits.simps digit_char_def)
  have "finite_float (Finite False (8949553179510649 / 9007199254740992))"
    by (simp add: finite_float_def)
  with get_message_line [of "''Swimming''" "float_lit 1" "float_lit 0.9935999999999999"
      "float_lit 1" "float_lit 336" "Finite False (8949553179510649 / 9007199254740992)"]
  show ?thesis
    unfolding float_lits f by (simp add: float_value_def)
qed

text \<open>
  C3 as stated fails: the line of a Running report is not the line of the English
  template with the same five fields.
\<close>

theorem get_message_not_english:
  "get_message \<lparr>training_type = ''Running'', InfoMessage.duration = PyFloat (float_lit 1),
                 distance = PyFloat (float_lit 9.75), speed = PyFloat (float_lit 9.75),
                 calories = PyFloat (float_lit 797.805)\<rparr>
     = Inr (text_training_type @ ''Running'' @ text_duration @ ''1.000'' @ text_distance @
            ''9.750'' @ text_speed @ ''9.750'' @ text_calories @ ''797.805'' @ text_end)
   \<and> get_message \<lparr>training_type = ''Running'', InfoMessage.duration = PyFloat (float_lit 1),
                   distance = PyFloat (float_lit 9.75), speed = PyFloat (float_lit 9.75),
                   calories = PyFloat (float_lit 797.805)\<rparr>
     \<noteq> Inr (spec_report_line ''Running'' ''1.000'' ''9.750'' ''9.750'' ''797.805'')"
proof -
  have "format_3f (Finite False 1) = ''1.000''" "format_3f (Finite False 9.75) = ''9.750''"
    "format_3f (Finite False (7017566993582653 / 8796093022208)) = ''797.805''"
    by (simp_all add: fixed_3_def round_half_even_def nat_digits.simps digit_char_def)
  then show ?thesis
    unfolding float_lits
    by (simp add: get_message_def text_training_type_def spec_report_line_def)
qed

subsection \<open>Division\<close>

lemma fdiv_zero: "fdiv x (Finite s 0) = Inl (Runtime ZeroDivisionError)"
  by (cases x) simp_all

lemma fdiv_nonzero: "n \<noteq> 0 \<Longrightarrow> \<exists>y. fdiv x (Finite t n) = Inr y"
  by (cases x) simp_all

lemma fdiv_positive: "float_gt_zero d \<Longrightarrow> \<exists>y. fdiv x d = Inr y"
  by (cases "(x, d)" rule: fdiv.cases) auto

lemma py_truediv_zero: "py_truediv (Inr x) (Inr (Finite s 0)) = Inl (Runtime ZeroDivisionError)"
  by (simp add: py_truediv_def fdiv_zero)

lemma by_M_IN_KM: "\<exists>y. py_truediv (Inr x) (int_to_float M_IN_KM) = Inr y"
  using fdiv_nonzero [of 1000 x False] by (simp add: py_truediv_def int_to_float_M_IN_KM)

lemma Training_get_mean_speed_zero:
  assumes "int_to_float (action (attrs t)) = Inr x" and "duration (attrs t) = Finite s 0"
  shows "Training_get_mean_speed t = Inl (Runtime ZeroDivisionError)"
proof -
  obtain y where "py_truediv (Inr (fmul x (LEN_STEP t))) (int_to_float M_IN_KM) = Inr y"
    using by_M_IN_KM by blast
  with assms show ?thesis
    by (simp add: Training_get_mean_speed_def py_mul_def py_truediv_zero)
qed

lemma Swimming_get_mean_speed_zero:
  assumes "int_to_float c = Inr y"
  shows "get_mean_speed (Swimming \<lparr>action = k, duration = Finite s 0, weight = w\<rparr> l c)
           = Inl (Runtime ZeroDivisionError)"
proof -
  obtain z where "py_truediv (Inr (fmul l y)) (int_to_float M_IN_KM) = Inr z"
    using by_M_IN_KM by blast
  with assms show ?thesis
    by (simp add: py_mul_def py_truediv_zero)
qed

subsection \<open>A duration of zero\<close>

text \<open>
  C10 (as amended). The duration validator accepts a zero of either sign. With valid
  other arguments, each of Running, SportsWalking and Swimming is constructed with a zero
  duration; when the step count (for Swimming: the lap count) converts to a float, both
  \<open>get_mean_speed\<close> and \<open>get_spent_calories\<close> raise ZeroDivisionError on the instance.
\<close>

theorem zero_duration:
  assumes "0 \<le> n" and "int_to_float n = Inr x" and "0 \<le> k" and "0 \<le> c"
    and "int_to_float c = Inr y"
    and "\<not> float_lt_zero w" and "\<not> float_lt_zero h" and "\<not> float_lt_zero l"
  shows "verify_duration (PyFloat (Finite s 0)) = Inr (Finite s 0)
    \<and> (\<exists>t. new_Running (PyInt n) (PyFloat (Finite s 0)) (PyFloat w) = Inr t
          \<and> get_mean_speed t = Inl (Runtime ZeroDivisionError)
          \<and> get_spent_calories t = Inl (Runtime ZeroDivisionError))
    \<and> (\<exists>t. new_SportsWalking (PyInt n) (PyFloat (Finite s 0)) (PyFloat w) (PyFloat h) = Inr t
          \<and> get_mean_speed t = Inl (Runtime ZeroDivisionError)
          \<and> get_spent_calories t = Inl (Runtime ZeroDivisionError))
    \<and> (\<exists>t. new_Swimming (PyInt k) (PyFloat (Finite s 0)) (PyFloat w) (PyFloat l) (PyInt c) = Inr t
          \<and> get_mean_speed t = Inl (Runtime ZeroDivisionError)
          \<and> get_spent_calories t = Inl (Runtime ZeroDivisionError))"
proof -
  let ?a = "\<lparr>action = n, duration = Finite s 0, weight = w\<rparr>"
  have r: "Training_get_mean_speed (Running ?a) = Inl (Runtime ZeroDivisionError)"
    and sw: "Training_get_mean_speed (SportsWalking ?a h) = Inl (Runtime ZeroDivisionError)"
    using assms(2) by (simp_all add: Training_get_mean_speed_zero [where s = s and x = x])
  have swim: "get_mean_speed (Swimming \<lparr>action = k, duration = Finite s 0, weight = w\<rparr> l c)
                = Inl (Runtime ZeroDivisionError)"
    using assms(5) by (rule Swimming_get_mean_speed_zero)
  have "verify_duration (PyFloat (Finite s 0)) = Inr (Finite s 0)"
    by (simp add: verify_duration_def)
  moreover have "new_Running (PyInt n) (PyFloat (Finite s 0)) (PyFloat w) = Inr (Running ?a)"
    using assms by (simp add: construction_defs)
  moreover have "get_spent_calories (Running ?a) = Inl (Runtime ZeroDivisionError)"
    by (simp add: r)
  moreover have "new_SportsWalking (PyInt n) (PyFloat (Finite s 0)) (PyFloat w) (PyFloat h)
                   = Inr (SportsWalking ?a h)"
    using assms by (simp add: construction_defs)
  moreover have "get_spent_calories (SportsWalking ?a h) = Inl (Runtime ZeroDivisionError)"
    by (simp add: sw py_mul_def py_add_def py_truediv_def py_pow2_def as_pyval_def
        split: sum.splits)
  moreover have "new_Swimming (PyInt k) (PyFloat (Finite s 0)) (PyFloat w) (PyFloat l) (PyInt c)
                   = Inr (Swimming \<lparr>action = k, duration = Finite s 0, weight = w\<rparr> l c)"
    using assms by (simp add: construction_defs)
  moreover have "get_spent_calories (Swimming \<lparr>action = k, duration = Finite s 0, weight = w\<rparr> l c)
                   = Inl (Runtime ZeroDivisionError)"
    unfolding get_spent_calories.simps swim by simp
  ultimately show ?thesis
    using r sw swim by (simp del: get_mean_speed.simps(1) get_spent_calories.simps)
qed

lemma int_to_float_1000_steps: "int_to_float 1000 = Inr (Finite False 1000)"
  by (simp add: float_eval)

lemma int_to_float_10: "int_to_float 10 = Inr (Finite False 10)"
  by (simp add: float_eval)

text \<open>
  C10, at 1000 steps (720 strokes), 70 kg, 170 cm, a 25 m pool and 10 laps.
\<close>

theorem zero_duration_witness:
  "(\<exists>t. new_Running (PyInt 1000) (PyFloat (Finite False 0)) (PyFloat (Finite False 70)) = Inr t
          \<and> get_mean_speed t = Inl (Runtime ZeroDivisionError)
          \<and> get_spent_calories t = Inl (Runtime ZeroDivisionError))
    \<and> (\<exists>t. new_SportsWalking (PyInt 1000) (PyFloat (Finite False 0)) (PyFloat (Finite False 70))
              (PyFloat (Finite False 170)) = Inr t
          \<and> get_mean_speed t = Inl (Runtime ZeroDivisionError)
          \<and> get_spent_calories t = Inl (Runtime ZeroDivisionError))
    \<and> (\<exists>t. new_Swimming (PyInt 720) (PyFloat (Finite False 0)) (PyFloat (Finite False 70))
              (PyFloat (Finite False 25)) (PyInt 10) = Inr t
          \<and> get_mean_speed t = Inl (Runtime ZeroDivisionError)
          \<and> get_spent_calories t = Inl (Runtime ZeroDivisionError))"
  using zero_duration [of 1000 "Finite False 1000" 720 10 "Finite False 10" "Finite False 70"
      "Finite False 170" "Finite False 25" False]
  by (simp add: int_to_float_1000_steps int_to_float_10)

lemma int_to_float_2_1024: "int_to_float (2 ^ 1024) = Inl (Runtime OverflowError)"
  by (simp add: float_eval)

text \<open>
  C10 as stated fails: a Running instance with \<open>2^1024\<close> steps and the duration \<open>0.0\<close> is
  constructed, and \<open>get_mean_speed\<close> and \<open>get_spent_calories\<close> raise OverflowError on
  it, from the conversion of the step count, not ZeroDivisionError.
\<close>

theorem zero_duration_overflow:
  "new_Running (PyInt (2 ^ 1024)) (PyFloat (float_lit 0)) (PyFloat (float_lit 75))
     = Inr (Running \<lparr>action = 2 ^ 1024, duration = float_lit 0, weight = float_lit 75\<rparr>)
   \<and> get_mean_speed (Running \<lparr>action = 2 ^ 1024, duration = float_lit 0, weight = float_lit 75\<rparr>)
       = Inl (Runtime OverflowError)
   \<and> get_spent_calories (Running \<lparr>action = 2 ^ 1024, duration = float_lit 0, weight = float_lit 75\<rparr>)
       = Inl (Runtime OverflowError)"
proof -
  have "Training_get_mean_speed
          (Running \<lparr>action = 2 ^ 1024, duration = Finite False 0, weight = Finite False 75\<rparr>)
          = Inl (Runtime OverflowError)"
    by (simp add: Training_get_mean_speed_def int_to_float_2_1024 [simplified] py_mul_def
        py_truediv_def)
  then show ?thesis
    unfolding float_lits by (simp add: construction_defs)
qed

subsection \<open>The calories of SportsWalking\<close>


lemma new_Swimming_instance:
  "new_Swimming (PyInt n) (PyFloat dur) (PyFloat wt) (PyFloat lp) (PyInt cp) = Inr t
   \<Longrightarrow> t = Swimming \<lparr>action = n, duration = dur, weight = wt\<rparr> lp cp"
  by (auto simp: construction_defs split: if_splits)






lemma float_lit_5_85: "float_lit 5.85 = Finite False (3293257227514675 / 562949953421312)"
  by (simp add: float_eval)










subsection \<open>The mean speed of Swimming\<close>

text \<open>
  C8 (as amended). On every constructed Swimming instance, \<open>get_mean_speed\<close> is
  \<^verbatim>\<open>length_pool * count_pool / 1000 / duration\<close> evaluated in float arithmetic from left to
  right; two instances with the same pool length, lap count and duration have the same
  result whatever their step counts and weights; and the result is a float, not an
  exception, when the duration is positive and the lap count converts to a float.
\<close>

theorem swimming_mean_speed:
  assumes "new_Swimming (PyInt n1) (PyFloat dur) (PyFloat w1) (PyFloat lp) (PyInt cp) = Inr t1"
    and "new_Swimming (PyInt n2) (PyFloat dur) (PyFloat w2) (PyFloat lp) (PyInt cp) = Inr t2"
  shows "get_mean_speed t1 = spec_swimming_mean_speed lp cp dur
         \<and> get_mean_speed t2 = get_mean_speed t1
         \<and> ((\<exists>y. int_to_float cp = Inr y) \<and> float_gt_zero dur
              \<longrightarrow> (\<exists>v. get_mean_speed t1 = Inr v))"
proof -
  from assms have t: "t1 = Swimming \<lparr>action = n1, duration = dur, weight = w1\<rparr> lp cp"
    "t2 = Swimming \<lparr>action = n2, duration = dur, weight = w2\<rparr> lp cp"
    by (simp_all add: new_Swimming_instance)
  have eq: "get_mean_speed t1 = spec_swimming_mean_speed lp cp dur"
    "get_mean_speed t2 = get_mean_speed t1"
    unfolding t by (simp_all add: spec_swimming_mean_speed_def M_IN_KM_def)
  have "\<exists>v. get_mean_speed t1 = Inr v" if y: "int_to_float cp = Inr y" and d: "float_gt_zero dur"
    for y
  proof -
    obtain z where z: "py_truediv (Inr (fmul lp y)) (int_to_float M_IN_KM) = Inr z"
      using by_M_IN_KM by blast
    from fdiv_positive [OF d] obtain v where "fdiv z dur = Inr v" by blast
    with y z show ?thesis
      unfolding t by (simp add: py_mul_def) (simp add: py_truediv_def)
  qed
  with eq show ?thesis by blast
qed

text \<open>
  C8, at a 25 m pool, 40 laps and one hour, with 720 and with 5 strokes: the mean speed
  is the float 1.0 for both.
\<close>

theorem swimming_mean_speed_witness:
  "get_mean_speed (Swimming \<lparr>action = 720, duration = float_lit 1, weight = float_lit 80\<rparr>
                     (float_lit 25) 40)
     = spec_swimming_mean_speed (float_lit 25) 40 (float_lit 1)
   \<and> get_mean_speed (Swimming \<lparr>action = 5, duration = float_lit 1, weight = float_lit 75\<rparr>
                       (float_lit 25) 40)
     = get_mean_speed (Swimming \<lparr>action = 720, duration = float_lit 1, weight = float_lit 80\<rparr>
                         (float_lit 25) 40)
   \<and> spec_swimming_mean_speed (float_lit 25) 40 (float_lit 1) = Inr (float_lit 1)"
proof -
  have "new_Swimming (PyInt 720) (PyFloat (Finite False 1)) (PyFloat (Finite False 80))
          (PyFloat (Finite False 25)) (PyInt 40)
          = Inr (Swimming \<lparr>action = 720, duration = Finite False 1, weight = Finite False 80\<rparr>
                   (Finite False 25) 40)"
    and "new_Swimming (PyInt 5) (PyFloat (Finite False 1)) (PyFloat (Finite False 75))
          (PyFloat (Finite False 25)) (PyInt 40)
          = Inr (Swimming \<lparr>action = 5, duration = Finite False 1, weight = Finite False 75\<rparr>
                   (Finite False 25) 40)"
    by (simp_all add: construction_defs)
  from swimming_mean_speed [OF this] swimming_sample_mean_speed show ?thesis
    unfolding float_lits by (simp del: get_mean_speed.simps)
qed

text \<open>
  C8 as stated fails: a Swimming instance with \<open>2^1024\<close> laps and the positive duration
  \<open>1.0\<close> is constructed, and \<open>get_mean_speed\<close> raises OverflowError on it.
\<close>

theorem swimming_mean_speed_overflow:
  "new_Swimming (PyInt 720) (PyFloat (float_lit 1)) (PyFloat (float_lit 80))
     (PyFloat (float_lit 25)) (PyInt (2 ^ 1024))
     = Inr (Swimming \<lparr>action = 720, duration = float_lit 1, weight = float_lit 80\<rparr>
              (float_lit 25) (2 ^ 1024))
   \<and> float_gt_zero (float_lit 1)
   \<and> get_mean_speed (Swimming \<lparr>action = 720, duration = float_lit 1, weight = float_lit 80\<rparr>
                       (float_lit 25) (2 ^ 1024))
       = Inl (Runtime OverflowError)"
  unfolding float_lits
  by (simp add: construction_defs int_to_float_2_1024 [simplified] py_mul_def py_truediv_def)

subsection \<open>The distance grows with the number of steps\<close>

lemma int_to_float_mono:
  assumes "0 \<le> n1" and "n1 \<le> n2" and "int_to_float n2 = Inr x2"
  shows "\<exists>r1 r2. int_to_float n1 = Inr (Finite False r1) \<and> x2 = Finite False r2
           \<and> 0 \<le> r1 \<and> r1 \<le> r2"
proof -
  let ?r1 = "round_mag (of_int n1)" and ?r2 = "round_mag (of_int n2)"
  from assms have n2: "0 \<le> n2" by simp
  have le: "?r1 \<le> ?r2" using assms(2) by (intro round_mag_mono) simp
  have nonneg: "0 \<le> ?r1" using assms(1) by (intro round_mag_nonneg) simp
  from assms(3) n2 have o2: "\<not> overflows ?r2" and x2: "x2 = Finite False ?r2"
    by (auto simp: int_to_float_def Let_def split: if_splits)
  from o2 le have "\<not> overflows ?r1" by (simp add: overflows_def)
  with assms(1) have "int_to_float n1 = Inr (Finite False ?r1)"
    by (simp add: int_to_float_def Let_def)
  with x2 le nonneg show ?thesis by blast
qed

lemma rounded_mono:
  assumes "0 \<le> a" and "a \<le> b"
  shows "(\<exists>r1 r2. rounded False a = Finite False r1 \<and> rounded False b = Finite False r2
            \<and> 0 \<le> r1 \<and> r1 \<le> r2)
         \<or> (\<exists>r1. rounded False a = Finite False r1 \<and> 0 \<le> r1)
              \<and> rounded False b = Infinity False
         \<or> rounded False a = Infinity False \<and> rounded False b = Infinity False"
proof -
  have le: "round_mag a \<le> round_mag b" using assms(2) by (rule round_mag_mono)
  have nonneg: "0 \<le> round_mag a" using assms(1) by (rule round_mag_nonneg)
  show ?thesis
  proof (cases "overflows (round_mag b)")
    case True
    then show ?thesis using nonneg by (cases "overflows (round_mag a)") (simp_all add: rounded_def)
  next
    case False
    with le have "\<not> overflows (round_mag a)" by (simp add: overflows_def)
    with False le nonneg show ?thesis by (simp add: rounded_def)
  qed
qed

lemma distance_mono:
  assumes "0 \<le> n1" and "n1 \<le> n2" and "int_to_float n2 = Inr x2" and "0 \<le> c"
  shows "\<exists>d1 d2.
           py_truediv (py_mul (int_to_float n1) (Inr (Finite False c))) (Inr (Finite False 1000))
             = Inr d1
         \<and> py_truediv (py_mul (int_to_float n2) (Inr (Finite False c))) (Inr (Finite False 1000))
             = Inr d2
         \<and> float_le d1 d2"
proof -
  from int_to_float_mono [OF assms(1-3)] obtain r1 r2
    where n1: "int_to_float n1 = Inr (Finite False r1)" and x2: "x2 = Finite False r2"
      and r: "0 \<le> r1" "r1 \<le> r2"
    by blast
  from r assms(4) have p: "0 \<le> r1 * c" "r1 * c \<le> r2 * c"
    by (simp_all add: mult_right_mono)
  have prod: "py_mul (int_to_float n1) (Inr (Finite False c)) = Inr (rounded False (r1 * c))"
    "py_mul (int_to_float n2) (Inr (Finite False c)) = Inr (rounded False (r2 * c))"
    using n1 x2 assms(3) by (simp_all add: py_mul_def)
  from rounded_mono [OF p] consider
    (finite) p1 p2 where "rounded False (r1 * c) = Finite False p1"
      "rounded False (r2 * c) = Finite False p2" "0 \<le> p1" "p1 \<le> p2"
    | (mixed) p1 where "rounded False (r1 * c) = Finite False p1" "0 \<le> p1"
      "rounded False (r2 * c) = Infinity False"
    | (infinite) "rounded False (r1 * c) = Infinity False"
      "rounded False (r2 * c) = Infinity False"
    by blast
  then show ?thesis
  proof cases
    case finite
    from finite(3,4) have q: "0 \<le> p1 / 1000" "p1 / 1000 \<le> p2 / 1000"
      by (simp_all add: divide_right_mono)
    from rounded_mono [OF q] show ?thesis
      unfolding prod finite(1,2) by (auto simp: py_truediv_def)
  next
    case mixed
    have "rounded False (p1 / 1000) = Finite False (round_mag (p1 / 1000))
          \<or> rounded False (p1 / 1000) = Infinity False"
      by (simp add: rounded_def Let_def)
    then show ?thesis
      unfolding prod mixed(1,3) by (auto simp: py_truediv_def)
  next
    case infinite
    then show ?thesis unfolding prod by (simp add: py_truediv_def)
  qed
qed

text \<open>
  C9 (as amended). For two Running instances, or two SportsWalking instances,
  constructed from the same arguments except the step counts \<open>n1 \<le> n2\<close>: when the larger
  step count converts to a float, both distances are floats and the distance for \<open>n1\<close> is
  at most the distance for \<open>n2\<close> (rounding to nearest is monotone at each of the three
  steps: the conversion, the product with the step length and the quotient by 1000).
\<close>

theorem distance_monotone:
  assumes "(new_Running (PyInt n1) d w = Inr t1 \<and> new_Running (PyInt n2) d w = Inr t2)
           \<or> (new_SportsWalking (PyInt n1) d w h = Inr t1
                \<and> new_SportsWalking (PyInt n2) d w h = Inr t2)"
    and "n1 \<le> n2"
    and "int_to_float n2 = Inr x2"
  shows "\<exists>d1 d2. get_distance t1 = Inr d1 \<and> get_distance t2 = Inr d2 \<and> float_le d1 d2"
proof -
  from assms(1) have t: "action (attrs t1) = n1" "action (attrs t2) = n2" "0 \<le> n1"
    "LEN_STEP t1 = float_lit 0.65" "LEN_STEP t2 = float_lit 0.65"
    by (auto simp: construction_defs split: if_splits sum.splits pyval.splits)
  from distance_mono [OF t(3) assms(2,3), of "5854679515581645 / 9007199254740992"]
  show ?thesis
    unfolding get_distance_def t float_lit_0_65 int_to_float_M_IN_KM by simp
qed

lemma int_to_float_9000: "int_to_float 9000 = Inr (Finite False 9000)"
  by (simp add: float_eval)

lemma int_to_float_15000: "int_to_float 15000 = Inr (Finite False 15000)"
  by (simp add: float_eval)

lemma distance_9000:
  "get_distance (Running \<lparr>action = 9000, duration = x, weight = y\<rparr>)
     = Inr (Finite False (3293257227514675 / 562949953421312))"
  unfolding get_distance_def
  by (simp add: int_to_float_9000 int_to_float_M_IN_KM float_lit_0_65) (simp add: float_eval)

lemma distance_15000:
  "get_distance (Running \<lparr>action = 15000, duration = x, weight = y\<rparr>)
     = Inr (Finite False (39 / 4))"
  unfolding get_distance_def
  by (simp add: int_to_float_15000 int_to_float_M_IN_KM float_lit_0_65) (simp add: float_eval)

text \<open>
  C9, at 9000 and 15000 steps: the distances are the floats 5.85 and 9.75.
\<close>

theorem distance_monotone_witness:
  "new_Running (PyInt 9000) (PyFloat (float_lit 1)) (PyFloat (float_lit 75))
     = Inr (Running \<lparr>action = 9000, duration = float_lit 1, weight = float_lit 75\<rparr>)
   \<and> new_Running (PyInt 15000) (PyFloat (float_lit 1)) (PyFloat (float_lit 75))
     = Inr (Running \<lparr>action = 15000, duration = float_lit 1, weight = float_lit 75\<rparr>)
   \<and> get_distance (Running \<lparr>action = 9000, duration = float_lit 1, weight = float_lit 75\<rparr>)
     = Inr (float_lit 5.85)
   \<and> get_distance (Running \<lparr>action = 15000, duration = float_lit 1, weight = float_lit 75\<rparr>)
     = Inr (float_lit 9.75)
   \<and> float_le (float_lit 5.85) (float_lit 9.75)"
proof -
  let ?a = "Running \<lparr>action = 9000, duration = Finite False 1, weight = Finite False 75\<rparr>"
  let ?b = "Running \<lparr>action = 15000, duration = Finite False 1, weight = Finite False 75\<rparr>"
  have c: "new_Running (PyInt 9000) (PyFloat (Finite False 1)) (PyFloat (Finite False 75)) = Inr ?a
      \<and> new_Running (PyInt 15000) (PyFloat (Finite False 1)) (PyFloat (Finite False 75)) = Inr ?b"
    by (simp add: construction_defs)
  from distance_monotone [OF disjI1 [OF c] _ int_to_float_15000]
  have "float_le (Finite False (3293257227514675 / 562949953421312)) (Finite False (39 / 4))"
    unfolding distance_9000 distance_15000 by simp
  with c show ?thesis
    unfolding float_lits float_lit_5_85 by (simp add: distance_9000 distance_15000)
qed

text \<open>
  C9 as stated fails: Running instances with 0 and with \<open>2^1024\<close> steps are constructed
  from otherwise equal arguments; the distance of the first is \<open>0.0\<close>, and
  \<open>get_distance\<close> on the second raises OverflowError, so it has no distance to compare.
\<close>

theorem distance_overflow:
  "new_Running (PyInt 0) (PyFloat (float_lit 1)) (PyFloat (float_lit 75))
     = Inr (Running \<lparr>action = 0, duration = float_lit 1, weight = float_lit 75\<rparr>)
   \<and> new_Running (PyInt (2 ^ 1024)) (PyFloat (float_lit 1)) (PyFloat (float_lit 75))
     = Inr (Running \<lparr>action = 2 ^ 1024, duration = float_lit 1, weight = float_lit 75\<rparr>)
   \<and> (0::int) \<le> 2 ^ 1024
   \<and> get_distance (Running \<lparr>action = 0, duration = float_lit 1, weight = float_lit 75\<rparr>)
     = Inr (float_lit 0)
   \<and> get_distance (Running \<lparr>action = 2 ^ 1024, duration = float_lit 1, weight = float_lit 75\<rparr>)
     = Inl (Runtime OverflowError)"
proof -
  have "int_to_float 0 = Inr (Finite False 0)" by (simp add: float_eval)
  then have "get_distance (Running \<lparr>action = 0, duration = x, weight = y\<rparr>)
               = Inr (Finite False 0)" for x y
    unfolding get_distance_def
    by (simp add: int_to_float_M_IN_KM float_lit_0_65) (simp add: float_eval)
  moreover have "get_distance (Running \<lparr>action = 2 ^ 1024, duration = x, weight = y\<rparr>)
               = Inl (Runtime OverflowError)" for x y
    unfolding get_distance_def
    by (simp add: int_to_float_2_1024 [simplified] py_mul_def py_truediv_def)
  ultimately show ?thesis
    unfolding float_lits by (simp add: construction_defs)
qed

end
